theory Spec2Isabelle
  imports Main
begin

section \<open>Strings and values of the runtime\<close>

text \<open>
  Strings are lists of characters. The helpers below are the string methods of the
  runtime that the hub's code calls: \<^verbatim>\<open>startsWith\<close>, \<^verbatim>\<open>includes\<close>, \<^verbatim>\<open>endsWith\<close>,
  \<^verbatim>\<open>Array.prototype.join\<close>, \<^verbatim>\<open>toLowerCase\<close>, \<^verbatim>\<open>toUpperCase\<close> and the decimal
  rendering of a non-negative integer inside a template literal.
\<close>

fun js_startsWith :: "string \<Rightarrow> string \<Rightarrow> bool" where
  "js_startsWith s [] = True"
| "js_startsWith [] (p # ps) = False"
| "js_startsWith (c # cs) (p # ps) = (c = p \<and> js_startsWith cs ps)"

fun js_includes :: "string \<Rightarrow> string \<Rightarrow> bool" where
  "js_includes [] sub = (sub = [])"
| "js_includes (c # cs) sub = (js_startsWith (c # cs) sub \<or> js_includes cs sub)"

definition js_endsWith :: "string \<Rightarrow> string \<Rightarrow> bool" where
  "js_endsWith s suffix = js_startsWith (rev s) (rev suffix)"

fun js_join :: "string \<Rightarrow> string list \<Rightarrow> string" where
  "js_join sep [] = []"
| "js_join sep [x] = x"
| "js_join sep (x # y # rest) = x @ sep @ js_join sep (y # rest)"

definition digit_char :: "nat \<Rightarrow> char" where
  "digit_char d = char_of (48 + d)"

fun nat_to_string :: "nat \<Rightarrow> string" where
  "nat_to_string n =
     (if n < 10 then [digit_char n] else nat_to_string (n div 10) @ [digit_char (n mod 10)])"

definition int_to_string :: "int \<Rightarrow> string" where
  "int_to_string i = (if i < 0 then CHR ''-'' # nat_to_string (nat (- i)) else nat_to_string (nat i))"

definition lower_char :: "char \<Rightarrow> char" where
  "lower_char c =
     (if (65::nat) \<le> of_char c \<and> of_char c \<le> (90::nat)
      then char_of (of_char c + (32::nat)) else c)"

definition upper_char :: "char \<Rightarrow> char" where
  "upper_char c =
     (if (97::nat) \<le> of_char c \<and> of_char c \<le> (122::nat)
      then char_of (of_char c - (32::nat)) else c)"

definition toLowerCase :: "string \<Rightarrow> string" where
  "toLowerCase s = map lower_char s"

definition toUpperCase :: "string \<Rightarrow> string" where
  "toUpperCase s = map upper_char s"

text \<open>
  Thrown values. \<^verbatim>\<open>HttpError\<close> and \<^verbatim>\<open>ValidationError\<close> are the classes of
  \<^verbatim>\<open>server/_errors.ts\<close>; \<^verbatim>\<open>Error\<close> and \<^verbatim>\<open>TypeError\<close> are the runtime's. The header
  object of an \<^verbatim>\<open>HttpError\<close> is an association list in insertion order. A
  \<^verbatim>\<open>ValidationError\<close> carries the messages of its issues and the rendered field errors.
\<close>

datatype error =
    HttpError int string "(string \<times> string) list"
  | ValidationError "string list" string
  | Error string
  | TypeError string
  | RangeError string

fun error_message :: "error \<Rightarrow> string" where
  "error_message (HttpError status msg hs) = msg"
| "error_message (ValidationError issues fields) = ''Bad Request: Invalid payload''"
| "error_message (Error msg) = msg"
| "error_message (TypeError msg) = msg"
| "error_message (RangeError msg) = msg"

section \<open>Topic selectors (topic.ts, uri\_template.ts)\<close>

text \<open>
  An expression of a parsed URI template, as the template library hands it to
  \<^verbatim>\<open>convertExpression\<close>: a literal, or a variable expression with its terms.
\<close>

record Term =
  term_name :: string
  term_truncate :: nat
  term_explode :: bool

record VariableExpression =
  expr_terms :: "Term list"
  expr_separator :: string
  expr_first :: string
  expr_allowReserved :: bool
  expr_named :: bool

datatype Expression = LiteralExpression string | Variable VariableExpression

text \<open>A base URL: its serialisation (\<^verbatim>\<open>toString()\<close>) and its \<^verbatim>\<open>origin\<close>.\<close>

record URL =
  url_href :: string
  url_origin :: string

text \<open>
  What the code takes from outside the repository: the URI template parser, the
  \<^verbatim>\<open>URLPattern\<close> constructor and its \<^verbatim>\<open>test\<close> method, and the write operation of the
  LRU conversion cache. Each is a parameter; a constructor or parser that throws
  returns \<open>Inl\<close>. The type \<open>'p\<close> is the type of compiled URL patterns.
\<close>

record 'p platform =
  uri_parse :: "string \<Rightarrow> error + Expression list"
  new_URLPattern :: "string \<Rightarrow> string option \<Rightarrow> error + 'p"
  URLPattern_test :: "'p \<Rightarrow> string \<Rightarrow> string option \<Rightarrow> bool"
  lru_set :: "(string \<rightharpoonup> 'p) \<Rightarrow> string \<Rightarrow> 'p \<Rightarrow> (string \<rightharpoonup> 'p)"

definition buildTerm :: "Term \<Rightarrow> VariableExpression \<Rightarrow> string" where
  "buildTerm t expression =
     (let value0 = CHR '':'' # term_name t;
          value1 = (if expr_named expression then term_name t @ value0 else value0);
          value2 =
            (if 0 < term_truncate t \<or> expr_allowReserved expression
             then
               (let pattern = (if expr_allowReserved expression then ''.'' else ''.[^/]'');
                    quantifier =
                      (if 0 < term_truncate t
                       then ''{'' @ nat_to_string (term_truncate t) @ ''}''
                       else ''+'')
                in value1 @ ''('' @ pattern @ quantifier @ '')'')
             else value1)
      in value2 @ (if term_explode t then ''*'' else ''''))"

definition strip_trailing_slashes :: "string \<Rightarrow> string" where
  "strip_trailing_slashes s = rev (dropWhile (\<lambda>c. c = CHR ''/'') (rev s))"

fun convertExpression :: "string \<Rightarrow> Expression \<Rightarrow> string" where
  "convertExpression result (LiteralExpression v) = result @ v"
| "convertExpression result (Variable expression) =
     (let ts = map (\<lambda>t. buildTerm t expression) (expr_terms expression);
          first = expr_first expression;
          sep = expr_separator expression
      in if first = '''' then result @ js_join sep ts
         else if first = ''?'' \<or> first = ''#'' then
           (if js_includes result first then result else result @ first @ js_join sep ts)
         else if first = ''.'' then
           (if js_endsWith result ''/''
            then result @ ''{'' @ first @ (case ts of [] \<Rightarrow> '''' | t # _ \<Rightarrow> t) @ ''}'' @
                 (if 0 < length (tl ts) then sep @ js_join sep (tl ts) else '''')
            else result @ first @ js_join sep ts)
         else if first = ''/'' then strip_trailing_slashes result @ first @ js_join sep ts
         else if first = '';'' \<or> first = ''&'' then result @ first @ js_join sep ts
         else result)"

text \<open>
  \<^verbatim>\<open>convertToUrlPattern(template, baseURL)\<close>: a cached pattern is returned as it is;
  otherwise the template is converted, the pattern constructed (a failure is rethrown
  as \<^verbatim>\<open>Error("Failed to convert ...")\<close>) and stored in the cache. The second
  component of the result is the cache afterwards.
\<close>

definition convertToUrlPattern ::
  "'p platform \<Rightarrow> (string \<rightharpoonup> 'p) \<Rightarrow> string \<Rightarrow> URL option \<Rightarrow> (error + 'p) \<times> (string \<rightharpoonup> 'p)" where
  "convertToUrlPattern P cache template baseURL =
     (case cache template of
        Some cached \<Rightarrow> (Inr cached, cache)
      | None \<Rightarrow>
          (case (if js_includes template ''{''
                 then (case uri_parse P template of
                         Inl e \<Rightarrow> Inl e
                       | Inr expressions \<Rightarrow> Inr (foldl convertExpression '''' expressions))
                 else Inr template) of
             Inl e \<Rightarrow> (Inl e, cache)
           | Inr input \<Rightarrow>
               (case new_URLPattern P input (map_option url_origin baseURL) of
                  Inl cause \<Rightarrow>
                    (Inl (Error (''Failed to convert '' @ [CHR 0x22] @ input @ [CHR 0x22] @
                                 '' to URLPattern: '' @ error_message cause)), cache)
                | Inr pattern \<Rightarrow> (Inr pattern, lru_set P cache template pattern))))"

text \<open>
  \<^verbatim>\<open>type Selector = string | URLPattern | typeof Wildcard\<close>, and the class
  \<^verbatim>\<open>TopicSelector\<close> with its selector and optional base URL.
\<close>

datatype 'p Selector = Wildcard | Literal string | Pattern 'p

record 'p TopicSelector =
  selector :: "'p Selector"
  baseURL :: "URL option"

definition createTopicSelector ::
  "'p platform \<Rightarrow> (string \<rightharpoonup> 'p) \<Rightarrow> string \<Rightarrow> URL option
     \<Rightarrow> (error + 'p TopicSelector) \<times> (string \<rightharpoonup> 'p)" where
  "createTopicSelector P cache topic base =
     (if topic = ''*'' then (Inr \<lparr>selector = Wildcard, baseURL = base\<rparr>, cache)
      else if js_includes topic ''{'' then
        (case convertToUrlPattern P cache topic base of
           (Inl e, cache') \<Rightarrow> (Inl e, cache')
         | (Inr pattern, cache') \<Rightarrow> (Inr \<lparr>selector = Pattern pattern, baseURL = base\<rparr>, cache'))
      else (Inr \<lparr>selector = Literal topic, baseURL = base\<rparr>, cache))"

text \<open>The getter \<^verbatim>\<open>type\<close> of a selector.\<close>

definition selector_type :: "'p TopicSelector \<Rightarrow> string" where
  "selector_type ts =
     (case selector ts of
        Wildcard \<Rightarrow> ''wildcard''
      | Literal s \<Rightarrow> ''literal''
      | Pattern p \<Rightarrow> ''template'')"

text \<open>
  \<^verbatim>\<open>test(...topics)\<close>: whether the selector matches at least one of the topics given
  (\<^verbatim>\<open>topics.some\<close>; false on no topics at all).
\<close>

definition test_topic :: "'p platform \<Rightarrow> 'p TopicSelector \<Rightarrow> string \<Rightarrow> bool" where
  "test_topic P ts topic =
     (case selector ts of
        Wildcard \<Rightarrow> True
      | Literal s \<Rightarrow> s = topic
      | Pattern p \<Rightarrow> URLPattern_test P p topic (map_option url_href (baseURL ts)))"

definition test :: "'p platform \<Rightarrow> 'p TopicSelector \<Rightarrow> string list \<Rightarrow> bool" where
  "test P ts topics = list_ex (test_topic P ts) topics"

section \<open>Updates, subscriptions and subscribers (updates.ts, subscriptions.ts, subscribers.ts)\<close>

text \<open>
  The type \<^verbatim>\<open>Update\<close>. The optional properties are options; \<^verbatim>\<open>retry\<close> is an integer
  number of milliseconds.
\<close>

record Update =
  update_id :: string
  canonicalTopic :: string
  alternateTopics :: "string list"
  update_data :: "string option"
  update_private :: "bool option"
  update_retry :: "int option"
  update_type :: "string option"

text \<open>
  A subscription holds its selector and its id; the subscriber it belongs to is the
  one whose set \<^verbatim>\<open>subscriptions\<close> contains it.
\<close>

record 'p Subscription =
  subscription_id :: string
  subscription_selector :: "'p TopicSelector"

definition Subscription_match :: "'p platform \<Rightarrow> 'p Subscription \<Rightarrow> string list \<Rightarrow> bool" where
  "Subscription_match P subscription topics = test P (subscription_selector subscription) topics"

text \<open>
  The stream writer under an \<^verbatim>\<open>EventStream\<close>: the chunks written so far, whether the
  writer was closed, and whether its sink rejects writes (the peer is gone). A write
  to a closed or broken writer is rejected; any other write appends the chunk.
\<close>

record Writer =
  chunks :: "string list"
  closed :: bool
  broken :: bool

definition writer_write :: "Writer \<Rightarrow> string \<Rightarrow> (error + unit) \<times> Writer" where
  "writer_write w input =
     (if closed w \<or> broken w then (Inl (TypeError ''The stream is closed or errored''), w)
      else (Inr (), w\<lparr>chunks := chunks w @ [input]\<rparr>))"

definition writer_close :: "Writer \<Rightarrow> (error + unit) \<times> Writer" where
  "writer_close w =
     (if closed w \<or> broken w then (Inl (TypeError ''The stream is closed or errored''), w)
      else (Inr (), w\<lparr>closed := True\<rparr>))"

text \<open>Events a subscriber emits on its own event target.\<close>

datatype SubscriberEvent = Message Update | Heartbeat | Close

text \<open>
  What the methods of a subscriber do, step by step: the assignments to its private
  fields, the calls on its stream, the calls of \<^verbatim>\<open>Log.error\<close> and the events dispatched
  on its event target.
\<close>

datatype Effect =
    Assign_lastEventId string
  | Assign_active bool
  | Clear_heartbeatTimer
  | Stream_write string
  | Stream_close
  | Log_error string
  | Dispatch_event SubscriberEvent

text \<open>
  The class \<^verbatim>\<open>Subscriber\<close>. The set of subscriptions is a list in insertion order,
  the order in which \<^verbatim>\<open>canAccess\<close> iterates it. The payload is the opaque value of
  the token, kept as text. \<open>emitted\<close> records the events
  dispatched on the subscriber's event target and \<open>logged\<close> the messages handed to
  \<^verbatim>\<open>Log.error\<close>; \<open>journal\<close> records every effect of the subscriber's methods in the
  order in which the program performs them.
\<close>

record 'p Subscriber =
  subscriber_id :: string
  subscriptions :: "'p Subscription list"
  authorizedTopics :: "'p TopicSelector list"
  subscriber_payload :: "string option"
  active :: bool
  stream :: Writer
  heartbeatTimer :: "nat option"
  lastEventId :: "string option"
  emitted :: "SubscriberEvent list"
  logged :: "string list"
  journal :: "Effect list"

text \<open>
  \<^verbatim>\<open>canAccess(update, anonymousAccessEnabled)\<close>. The loop over the subscriptions is
  \<open>canAccess_loop\<close>; an update is confidential when its \<^verbatim>\<open>private\<close> property is
  \<^verbatim>\<open>true\<close> (absent and \<^verbatim>\<open>false\<close> are both falsy).
\<close>

definition confidential :: "Update \<Rightarrow> bool" where
  "confidential u = (update_private u = Some True)"

definition update_topics :: "Update \<Rightarrow> string list" where
  "update_topics u = canonicalTopic u # alternateTopics u"

fun canAccess_loop ::
  "'p platform \<Rightarrow> 'p TopicSelector list \<Rightarrow> Update \<Rightarrow> 'p Subscription list \<Rightarrow> bool" where
  "canAccess_loop P authorized u [] = False"
| "canAccess_loop P authorized u (subscription # rest) =
     (if \<not> Subscription_match P subscription (update_topics u)
      then canAccess_loop P authorized u rest
      else if \<not> confidential u \<or>
              list_ex (\<lambda>sel. test P sel (update_topics u)) authorized
      then True
      else canAccess_loop P authorized u rest)"

definition canAccess :: "'p platform \<Rightarrow> 'p Subscriber \<Rightarrow> Update \<Rightarrow> bool \<Rightarrow> bool" where
  "canAccess P s u anonymousAccessEnabled =
     (if \<not> anonymousAccessEnabled \<and> length (authorizedTopics s) = 0 then False
      else canAccess_loop P (authorizedTopics s) u (subscriptions s))"

text \<open>
  \<^verbatim>\<open>JSON.stringify\<close> of a string: the quotation mark and the reverse solidus are
  escaped, the control characters below U+0020 are written as their short escapes or
  as \<^verbatim>\<open>\u00XX\<close>, every other character stands for itself.
\<close>

definition hex_digit :: "nat \<Rightarrow> char" where
  "hex_digit d = (if d < 10 then char_of (48 + d) else char_of (87 + d))"

definition json_escape_char :: "char \<Rightarrow> string" where
  "json_escape_char c =
     (if c = CHR 0x22 then [CHR 0x5C, CHR 0x22]
      else if c = CHR 0x5C then [CHR 0x5C, CHR 0x5C]
      else if c = CHR 0x08 then [CHR 0x5C, CHR ''b'']
      else if c = CHR 0x0C then [CHR 0x5C, CHR ''f'']
      else if c = CHR 0x0A then [CHR 0x5C, CHR ''n'']
      else if c = CHR 0x0D then [CHR 0x5C, CHR ''r'']
      else if c = CHR 0x09 then [CHR 0x5C, CHR ''t'']
      else if (of_char c :: nat) < 32
        then [CHR 0x5C, CHR ''u'', CHR ''0'', CHR ''0'',
              hex_digit (of_char c div 16), hex_digit (of_char c mod 16)]
      else [c])"

definition json_string :: "string \<Rightarrow> string" where
  "json_string s = [CHR 0x22] @ concat (map json_escape_char s) @ [CHR 0x22]"

definition json_member :: "string \<Rightarrow> string \<Rightarrow> string" where
  "json_member key rendered = json_string key @ '':'' @ rendered"

text \<open>
  \<^verbatim>\<open>EventStream.write(input)\<close>: the write to the underlying writer is wrapped in
  \<^verbatim>\<open>try { ... } catch { Log.error("Error writing to stream") }\<close> and the method returns
  \<^verbatim>\<open>this\<close> either way. The result is the list of messages logged and the writer
  afterwards.
\<close>

definition EventStream_write :: "Writer \<Rightarrow> string \<Rightarrow> string list \<times> Writer" where
  "EventStream_write es input =
     (case writer_write es input of
        (Inl e, w) \<Rightarrow> ([''Error writing to stream''], w)
      | (Inr ok, w) \<Rightarrow> ([], w))"

text \<open>
  \<^verbatim>\<open>Subscriber.dispatch(update)\<close> in its two steps: the assignment to
  \<^verbatim>\<open>#lastEventId\<close>, then the write of \<^verbatim>\<open>`data: ${JSON.stringify(update)}\n\n`\<close>
  followed by the \<^verbatim>\<open>message\<close> event on the subscriber's event target. Nothing in the
  \<^verbatim>\<open>try\<close> block throws (\<^verbatim>\<open>EventStream.write\<close> catches the error of the writer
  itself), so the \<^verbatim>\<open>catch\<close> of \<^verbatim>\<open>dispatch\<close> is never entered.

  \<open>stringify\<close> is \<^verbatim>\<open>JSON.stringify\<close>, a function of the runtime: the text it returns
  depends on the order in which the update object was built and on the runtime's
  rendering of numbers, so it is a parameter.
\<close>

definition dispatch_record :: "'p Subscriber \<Rightarrow> Update \<Rightarrow> 'p Subscriber" where
  "dispatch_record s u =
     s\<lparr>lastEventId := Some (update_id u),
       journal := journal s @ [Assign_lastEventId (update_id u)]\<rparr>"

definition dispatch_frame :: "(Update \<Rightarrow> string) \<Rightarrow> Update \<Rightarrow> string" where
  "dispatch_frame stringify u = ''data: '' @ stringify u @ [CHR 0x0A, CHR 0x0A]"

definition dispatch_write :: "(Update \<Rightarrow> string) \<Rightarrow> 'p Subscriber \<Rightarrow> Update \<Rightarrow> 'p Subscriber" where
  "dispatch_write stringify s u =
     (case EventStream_write (stream s) (dispatch_frame stringify u) of
        (logs, w) \<Rightarrow>
          s\<lparr>stream := w, logged := logged s @ logs, emitted := emitted s @ [Message u],
            journal := journal s @ [Stream_write (dispatch_frame stringify u)] @
                       map Log_error logs @ [Dispatch_event (Message u)]\<rparr>)"

definition dispatch :: "(Update \<Rightarrow> string) \<Rightarrow> 'p Subscriber \<Rightarrow> Update \<Rightarrow> 'p Subscriber" where
  "dispatch stringify s u = dispatch_write stringify (dispatch_record s u) u"

text \<open>
  \<^verbatim>\<open>Subscriber.close()\<close>: the heartbeat timer is cleared, the subscriber becomes
  inactive, the stream is closed and the \<^verbatim>\<open>close\<close> event is emitted; every
  subscription listens to that event and removes itself from the subscriber's set.
  The first component is the outcome of closing the stream.
\<close>

definition Subscriber_close :: "'p Subscriber \<Rightarrow> (error + unit) \<times> 'p Subscriber" where
  "Subscriber_close s =
     (case writer_close (stream s) of
        (outcome, w) \<Rightarrow>
          (outcome,
           s\<lparr>heartbeatTimer := None, active := False, stream := w,
             emitted := emitted s @ [Close], subscriptions := [],
             journal := journal s @
               [Clear_heartbeatTimer, Assign_active False, Stream_close, Dispatch_event Close]\<rparr>))"

text \<open>
  The frame the specification describes for an update, for comparison with
  \<open>dispatch_frame\<close>: \<^verbatim>\<open>id: <id>\ndata: <data>\n[event: <type>\n][retry: <ms>\n]\n\<close>.
\<close>

definition specified_sse_frame :: "Update \<Rightarrow> string" where
  "specified_sse_frame u =
     ''id: '' @ update_id u @ [CHR 0x0A] @
     ''data: '' @ (case update_data u of None \<Rightarrow> [] | Some d \<Rightarrow> d) @ [CHR 0x0A] @
     (case update_type u of None \<Rightarrow> [] | Some t \<Rightarrow> ''event: '' @ t @ [CHR 0x0A]) @
     (case update_retry u of None \<Rightarrow> [] | Some r \<Rightarrow> ''retry: '' @ int_to_string r @ [CHR 0x0A]) @
     [CHR 0x0A]"

section \<open>The in-memory transport (transports/memory.ts)\<close>

text \<open>
  The class \<^verbatim>\<open>RingBuffer\<close>. The limit is \<open>None\<close> for \<^verbatim>\<open>Infinity\<close> and an integer
  otherwise. \<open>js_rem\<close> is the remainder operator on a non-negative dividend: its
  result has the sign of the dividend, so the sign of the divisor does not matter.
  (A remainder by zero is \<^verbatim>\<open>NaN\<close> in the source; the transport never sets a limit of
  zero, see \<open>MemoryTransport_new\<close>.)
\<close>

record 'a RingBuffer =
  buffer :: "'a list"
  limit :: "int option"
  pointer :: nat

definition js_rem :: "nat \<Rightarrow> int \<Rightarrow> nat" where
  "js_rem a n = a mod nat \<bar>n\<bar>"

definition RingBuffer_new :: "'a RingBuffer" where
  "RingBuffer_new = \<lparr>buffer = [], limit = None, pointer = 0\<rparr>"

definition RingBuffer_clear :: "'a RingBuffer \<Rightarrow> 'a RingBuffer" where
  "RingBuffer_clear rb = rb\<lparr>buffer := [], pointer := 0\<rparr>"

text \<open>
  The setter of \<^verbatim>\<open>limit\<close> assigns the new limit first, so its comparison
  \<^verbatim>\<open>limit !== this.limit\<close> is made against the value just assigned.
\<close>

definition RingBuffer_set_limit :: "'a RingBuffer \<Rightarrow> int \<Rightarrow> 'a RingBuffer" where
  "RingBuffer_set_limit rb l =
     (let rb1 = rb\<lparr>limit := Some l\<rparr>;
          rb2 =
            (if l = 0 then RingBuffer_clear rb1
             else if Some l \<noteq> limit rb1 then
               (let b = (if l < 0 then drop (nat (- l)) (buffer rb1)
                         else drop (length (buffer rb1) - nat l) (buffer rb1))
                in rb1\<lparr>buffer := b, pointer := length b\<rparr>)
             else rb1)
      in rb2\<lparr>limit := Some l\<rparr>)"

text \<open>
  \<^verbatim>\<open>push(value)\<close>: a full buffer is overwritten at the pointer, any other buffer
  grows at its end; then the pointer advances modulo the limit.
\<close>

definition RingBuffer_push :: "'a RingBuffer \<Rightarrow> 'a \<Rightarrow> 'a RingBuffer" where
  "RingBuffer_push rb v =
     (let b = (if Some (int (length (buffer rb))) = limit rb
               then (buffer rb)[pointer rb := v]
               else buffer rb @ [v]);
          p = (case limit rb of
                 None \<Rightarrow> pointer rb + 1
               | Some n \<Rightarrow> js_rem (pointer rb + 1) n)
      in rb\<lparr>buffer := b, pointer := p\<rparr>)"

text \<open>
  The events of the hub (\<^verbatim>\<open>EventMap\<close>): an update event carries the update, the
  other four carry the id of the subscription or subscriber they are about.
\<close>

datatype HubEvent =
    UpdateEvent Update
  | SubscribeEvent string
  | UnsubscribeEvent string
  | ConnectEvent string
  | DisconnectEvent string

fun event_type :: "HubEvent \<Rightarrow> string" where
  "event_type (UpdateEvent u) = ''update''"
| "event_type (SubscribeEvent i) = ''subscribe''"
| "event_type (UnsubscribeEvent i) = ''unsubscribe''"
| "event_type (ConnectEvent i) = ''connect''"
| "event_type (DisconnectEvent i) = ''disconnect''"

text \<open>
  The \<^verbatim>\<open>EventTarget\<close> of the transport: its listeners in registration order, each
  with the event type it listens to, the identity of its callback and whether it was
  registered with \<^verbatim>\<open>once\<close>.
\<close>

record Listener =
  listener_type :: string
  listener_callback :: nat
  listener_once :: bool


text \<open>
  The transport: its store, its listeners, and the deliveries made so far (callback
  and event, in the order of the calls).
\<close>

record MemoryTransport =
  store :: "Update RingBuffer"
  target :: "Listener list"
  delivered :: "(nat \<times> HubEvent) list"

definition earliestEventId :: string where
  "earliestEventId = ''earliest''"

text \<open>The constructor: a limit that is absent or zero is falsy and leaves the store unbounded.\<close>

definition MemoryTransport_new :: "int option \<Rightarrow> MemoryTransport" where
  "MemoryTransport_new lim =
     \<lparr>store = (case lim of
                 None \<Rightarrow> RingBuffer_new
               | Some l \<Rightarrow> if l \<noteq> 0 then RingBuffer_set_limit RingBuffer_new l else RingBuffer_new),
      target = [],
      delivered = []\<rparr>"



text \<open>
  \<^verbatim>\<open>dispatchEvent(event)\<close>: an event of type \<^verbatim>\<open>update\<close> has its update pushed to
  the store; then every event is dispatched on the event target, which calls the
  listeners of its type in registration order and drops those registered with
  \<^verbatim>\<open>once\<close>.
\<close>

definition EventTarget_dispatch :: "MemoryTransport \<Rightarrow> HubEvent \<Rightarrow> MemoryTransport" where
  "EventTarget_dispatch t e =
     t\<lparr>delivered := delivered t @
          map (\<lambda>l. (listener_callback l, e))
            (filter (\<lambda>l. listener_type l = event_type e) (target t)),
       target := filter (\<lambda>l. \<not> (listener_type l = event_type e \<and> listener_once l)) (target t)\<rparr>"

definition MemoryTransport_dispatchEvent :: "MemoryTransport \<Rightarrow> HubEvent \<Rightarrow> MemoryTransport" where
  "MemoryTransport_dispatchEvent t e =
     EventTarget_dispatch
       (if event_type e = ''update''
        then (case e of UpdateEvent u \<Rightarrow> t\<lparr>store := RingBuffer_push (store t) u\<rparr> | _ \<Rightarrow> t)
        else t)
       e"

text \<open>
  \<^verbatim>\<open>eventsAfter(lastEventId = earliestEventId)\<close>: the generator's loop over the
  buffer in storage order, with its flag \<^verbatim>\<open>next\<close>; the result is the list of the
  updates it yields when run to its end on the store as it is.
\<close>

fun eventsAfter_loop :: "bool \<Rightarrow> string \<Rightarrow> Update list \<Rightarrow> Update list" where
  "eventsAfter_loop next lid [] = []"
| "eventsAfter_loop next lid (u # rest) =
     (if next then [u] else []) @
     eventsAfter_loop (if update_id u = lid then True else next) lid rest"

definition MemoryTransport_eventsAfter :: "MemoryTransport \<Rightarrow> string option \<Rightarrow> Update list" where
  "MemoryTransport_eventsAfter t given =
     (let lid = (case given of None \<Rightarrow> earliestEventId | Some l \<Rightarrow> l)
      in eventsAfter_loop (lid = earliestEventId) lid (buffer (store t)))"

text \<open>Publishing updates one after the other: one \<^verbatim>\<open>update\<close> event each.\<close>

definition publish_all :: "MemoryTransport \<Rightarrow> Update list \<Rightarrow> MemoryTransport" where
  "publish_all t us = foldl (\<lambda>t' u. MemoryTransport_dispatchEvent t' (UpdateEvent u)) t us"


section \<open>Requests, responses and headers\<close>

text \<open>
  A \<^verbatim>\<open>Headers\<close> object is its header list: names in lower case, in the order they
  were added. \<^verbatim>\<open>get\<close> joins the values of a name with a comma and a space, \<^verbatim>\<open>set\<close>
  overwrites the first header of that name and removes the others (or appends),
  \<^verbatim>\<open>append\<close> adds at the end. Names and values are taken to be valid header names
  and values, as all those of the hub's code are.
\<close>

type_synonym Headers = "(string \<times> string) list"

definition Headers_get :: "Headers \<Rightarrow> string \<Rightarrow> string option" where
  "Headers_get h name =
     (let vs = map snd (filter (\<lambda>kv. fst kv = toLowerCase name) h)
      in if vs = [] then None else Some (js_join '', '' vs))"

definition Headers_append :: "Headers \<Rightarrow> string \<Rightarrow> string \<Rightarrow> Headers" where
  "Headers_append h name v = h @ [(toLowerCase name, v)]"

fun Headers_set_first :: "string \<Rightarrow> string \<Rightarrow> Headers \<Rightarrow> Headers" where
  "Headers_set_first k v [] = []"
| "Headers_set_first k v (kv # h) =
     (if fst kv = k then (k, v) # filter (\<lambda>kv'. fst kv' \<noteq> k) h
      else kv # Headers_set_first k v h)"

definition Headers_set :: "Headers \<Rightarrow> string \<Rightarrow> string \<Rightarrow> Headers" where
  "Headers_set h name v =
     (let k = toLowerCase name
      in if list_ex (\<lambda>kv. fst kv = k) h then Headers_set_first k v h else h @ [(k, v)])"

text \<open>
  A plain object with string values, as an association list in insertion order;
  assigning to a key that exists keeps its place. \<open>object_spread\<close> is
  \<^verbatim>\<open>{ ...base, ...extra }\<close>, and \<open>Headers_init\<close> builds the header list of an
  object, entry by entry.
\<close>

fun object_set :: "(string \<times> string) list \<Rightarrow> string \<Rightarrow> string \<Rightarrow> (string \<times> string) list" where
  "object_set [] k v = [(k, v)]"
| "object_set (kv # rest) k v =
     (if fst kv = k then (k, v) # rest else kv # object_set rest k v)"

definition object_spread ::
  "(string \<times> string) list \<Rightarrow> (string \<times> string) list \<Rightarrow> (string \<times> string) list" where
  "object_spread base extra = foldl (\<lambda>obj kv. object_set obj (fst kv) (snd kv)) base extra"

definition Headers_init :: "(string \<times> string) list \<Rightarrow> Headers" where
  "Headers_init obj = foldl (\<lambda>h kv. Headers_append h (fst kv) (snd kv)) [] obj"

record Request =
  request_method :: string
  request_url :: string
  request_headers :: Headers

record Response =
  response_status :: int
  response_headers :: Headers
  response_body :: string

text \<open>
  \<^verbatim>\<open>new Response(body, { status, headers })\<close> with a string body: the constructor
  throws a \<^verbatim>\<open>RangeError\<close> for a status outside 200..599 and a \<^verbatim>\<open>TypeError\<close> for a
  body given with a null body status.
\<close>

definition Response_new :: "string \<Rightarrow> int \<Rightarrow> (string \<times> string) list \<Rightarrow> error + Response" where
  "Response_new body st hs =
     (if st < 200 \<or> 599 < st then Inl (RangeError ''The status provided is outside the range [200, 599]'')
      else if st = 204 \<or> st = 205 \<or> st = 304
        then Inl (TypeError ''Response with null body status cannot have body'')
      else Inr \<lparr>response_status = st, response_headers = Headers_init hs, response_body = body\<rparr>)"

text \<open>The part of the configuration that authorization and the handler read.\<close>

record Configuration =
  queryParamAuthorization :: bool
  cookieName :: string
  anonymousAccess :: bool
  allowedOrigins :: "string list"
  metrics :: bool

section \<open>Authorization (server/authorization.ts)\<close>

text \<open>
  What \<^verbatim>\<open>authorize\<close> takes from outside the repository: the URL parser (the value of
  a query parameter of a request URL; the origin of a URL string, or the \<^verbatim>\<open>TypeError\<close>
  of an invalid one), the cookie parser of the standard library, and the verification
  of a token against a key (\<^verbatim>\<open>verifyJwt\<close> of \<^verbatim>\<open>jws.ts\<close>, which calls the JOSE
  library). \<open>'k\<close> is the type of keys, \<open>'c\<close> the type of token payloads.
\<close>

record ('k, 'c) web =
  URL_searchParam :: "string \<Rightarrow> string \<Rightarrow> string option"
  URL_origin_of :: "string \<Rightarrow> error + string"
  getCookies :: "Headers \<Rightarrow> (string \<rightharpoonup> string)"
  verifyJwt :: "'k \<Rightarrow> string \<Rightarrow> error + 'c"

text \<open>\<^verbatim>\<open>s.split(sep)\<close> for a separator of one character, and \<^verbatim>\<open>s.split(sep, 2)\<close>.\<close>

fun js_split :: "char \<Rightarrow> string \<Rightarrow> string list" where
  "js_split sep [] = [[]]"
| "js_split sep (c # cs) =
     (if c = sep then [] # js_split sep cs
      else (case js_split sep cs of
              [] \<Rightarrow> [[c]]
            | w # ws \<Rightarrow> (c # w) # ws))"

definition js_split2 :: "char \<Rightarrow> string \<Rightarrow> string list" where
  "js_split2 sep s = take 2 (js_split sep s)"

text \<open>A string value is truthy when it is present and not empty.\<close>

definition truthy :: "string option \<Rightarrow> bool" where
  "truthy v = (case v of None \<Rightarrow> False | Some s \<Rightarrow> s \<noteq> [])"

definition parseToken :: "('k, 'c) web \<Rightarrow> string \<Rightarrow> 'k \<Rightarrow> error + 'c" where
  "parseToken W token jwk =
     (case verifyJwt W jwk token of
        Inl cause \<Rightarrow> Inl (HttpError 403 ''Forbidden'' [])
      | Inr payload \<Rightarrow> Inr payload)"

text \<open>
  \<^verbatim>\<open>parseToken(token, await keyResolver(config))\<close>: the key is resolved first, and a
  failure to resolve it is thrown as it is.
\<close>

definition parseToken_with ::
  "('k, 'c) web \<Rightarrow> (Configuration \<Rightarrow> error + 'k) \<Rightarrow> Configuration \<Rightarrow> string \<Rightarrow> error + 'c" where
  "parseToken_with W keyResolver config token =
     (case keyResolver config of
        Inl e \<Rightarrow> Inl e
      | Inr jwk \<Rightarrow> parseToken W token jwk)"

text \<open>
  The origin of a request as \<^verbatim>\<open>authorize\<close> resolves it: the \<^verbatim>\<open>Origin\<close> header when
  it is present and not empty, else the origin of the \<^verbatim>\<open>Referer\<close> header (of
  \<^verbatim>\<open>Referrer\<close> when there is no \<^verbatim>\<open>Referer\<close> at all), else nothing.
\<close>

definition resolve_origin :: "('k, 'c) web \<Rightarrow> Request \<Rightarrow> error + string option" where
  "resolve_origin W request =
     (let origin = Headers_get (request_headers request) ''origin''
      in if truthy origin then Inr origin
         else
           (let originHeader =
                  (case Headers_get (request_headers request) ''referer'' of
                     Some r \<Rightarrow> Some r
                   | None \<Rightarrow> Headers_get (request_headers request) ''referrer'')
            in if truthy originHeader
               then (case URL_origin_of W (the originHeader) of
                       Inl e \<Rightarrow> Inl e
                     | Inr org \<Rightarrow> Inr (Some org))
               else Inr None))"

text \<open>
  \<^verbatim>\<open>authorize(request, config, keyResolver)\<close>. The result is the thrown error, or the
  payload of the token (\<open>None\<close> for \<^verbatim>\<open>undefined\<close>, the anonymous result).
\<close>

definition authorize ::
  "('k, 'c) web \<Rightarrow> Request \<Rightarrow> Configuration \<Rightarrow> (Configuration \<Rightarrow> error + 'k) \<Rightarrow> error + 'c option" where
  "authorize W request config keyResolver =
     (let authorization = Headers_get (request_headers request) ''authorization''
      in if truthy authorization then
           (let parts = js_split2 CHR '' '' (the authorization)
            in if hd parts \<noteq> ''Bearer'' \<or> \<not> truthy (if length parts < 2 then None else Some (parts ! 1))
               then Inl (HttpError 401 ''Unauthorized''
                          [(''WWW-Authenticate'',
                            ''Bearer realm='' @ [CHR 0x22] @ ''mercure'' @ [CHR 0x22] @
                            '', error='' @ [CHR 0x22] @ ''invalid_token'' @ [CHR 0x22])])
               else map_sum id Some (parseToken_with W keyResolver config (parts ! 1)))
         else if queryParamAuthorization config \<and>
                 truthy (URL_searchParam W (request_url request) ''authorization'')
         then map_sum id Some
                (parseToken_with W keyResolver config
                   (the (URL_searchParam W (request_url request) ''authorization'')))
         else
           (let token = getCookies W (request_headers request) (cookieName config)
            in if \<not> truthy token \<and> \<not> anonymousAccess config
               then Inl (HttpError 401 ''Unauthorized''
                          [(''WWW-Authenticate'',
                            ''Bearer realm='' @ [CHR 0x22] @ ''mercure'' @ [CHR 0x22])])
               else
                 (case resolve_origin W request of
                    Inl e \<Rightarrow> Inl e
                  | Inr origin \<Rightarrow>
                      if truthy origin \<and>
                         the origin \<notin> set (allowedOrigins config) \<and>
                         ''*'' \<notin> set (allowedOrigins config)
                      then Inl (HttpError 403 ''Forbidden'' [])
                      else if truthy token
                        then map_sum id Some (parseToken_with W keyResolver config (the token))
                        else Inr None)))"

section \<open>The router and the request handler (server/router.ts, server/handler.ts)\<close>

record RequestContext =
  context_parameters :: "(string \<times> string) list"
  context_request :: Request
  context_config :: Configuration

type_synonym HandlerFn = "RequestContext \<Rightarrow> error + Response"

text \<open>
  \<^verbatim>\<open>Router.match(request)\<close> over the routes in registration order. \<open>exec\<close> is
  \<^verbatim>\<open>URLPattern.exec\<close>: the groups of the path when the pattern matches the URL. The
  handlers of a route are the entries of its map, by verb, in insertion order.
\<close>

fun Router_match ::
  "('rp \<Rightarrow> string \<Rightarrow> (string \<times> string) list option) \<Rightarrow>
   ('rp \<times> (string \<times> HandlerFn) list) list \<Rightarrow> Request \<Rightarrow> HandlerFn \<times> (string \<times> string) list" where
  "Router_match exec [] request = ((\<lambda>ctx. Inl (HttpError 404 ''Not Found'' [])), [])"
| "Router_match exec (route # rest) request =
     (case exec (fst route) (request_url request) of
        None \<Rightarrow> Router_match exec rest request
      | Some groups \<Rightarrow>
          (case map_of (snd route) (toLowerCase (request_method request)) of
             Some handler \<Rightarrow> (handler, groups)
           | None \<Rightarrow>
               ((\<lambda>ctx. Inl (HttpError 405 ''Method not allowed''
                               [(''allow'', js_join '', '' (map (\<lambda>h. toUpperCase (fst h)) (snd route)))])),
                [])))"

text \<open>
  The error as \<^verbatim>\<open>handleError\<close> renders it: an \<^verbatim>\<open>HttpError\<close> or a
  \<^verbatim>\<open>ValidationError\<close> is its own payload, anything else becomes
  \<^verbatim>\<open>HttpError(500, "Internal Server Error")\<close>. The functions \<open>payload_status\<close>,
  \<open>payload_headers\<close>, \<open>payload_toString\<close> and \<open>payload_toJSON\<close> read such a
  payload; they are only ever applied to an \<^verbatim>\<open>HttpError\<close> or a \<^verbatim>\<open>ValidationError\<close>.
\<close>

fun error_payload :: "error \<Rightarrow> error" where
  "error_payload (HttpError st msg hs) = HttpError st msg hs"
| "error_payload (ValidationError issues rendered) = ValidationError issues rendered"
| "error_payload e = HttpError 500 ''Internal Server Error'' []"

fun payload_status :: "error \<Rightarrow> int" where
  "payload_status (HttpError st msg hs) = st"
| "payload_status e = 400"

fun payload_headers :: "error \<Rightarrow> (string \<times> string) list" where
  "payload_headers (HttpError st msg hs) = hs"
| "payload_headers e = []"

fun payload_toString :: "error \<Rightarrow> string" where
  "payload_toString (ValidationError issues rendered) = js_join ''; '' issues"
| "payload_toString e = error_message e"

fun payload_toJSON :: "error \<Rightarrow> string" where
  "payload_toJSON (ValidationError issues rendered) =
     ''{'' @ json_member ''status'' ''400'' @ '','' @
     json_member ''error'' (json_string ''Bad Request: Invalid payload'') @ '','' @
     json_member ''errors'' rendered @ ''}''"
| "payload_toJSON e =
     ''{'' @ json_member ''status'' (int_to_string (payload_status e)) @ '','' @
     json_member ''error'' (json_string (error_message e)) @ ''}''"

text \<open>
  \<^verbatim>\<open>handleError(request, error)\<close>; \<open>accept\<close> is the list of media types that
  \<^verbatim>\<open>resolveAcceptedMediaTypes(request)\<close> returns.
\<close>

definition handleError :: "string list \<Rightarrow> error \<Rightarrow> error + Response" where
  "handleError accept e =
     (let acceptsJSON = list_ex (\<lambda>ty. ty = ''application/json'') accept;
          payload = error_payload e
      in Response_new
           (if acceptsJSON then payload_toJSON payload else payload_toString payload)
           (payload_status payload)
           (object_spread
              [(''content-type'',
                if acceptsJSON then ''application/json; charset=utf-8''
                else ''text/plain; charset=utf-8'')]
              (payload_headers payload)))"

definition withGenericHeaders :: "Response \<Rightarrow> Response" where
  "withGenericHeaders response =
     response\<lparr>response_headers :=
       Headers_set
         (Headers_set
            (Headers_set
               (Headers_set
                  (Headers_set (response_headers response) ''server'' ''Mercure/0.0.1 (Deno)'')
                  ''x-content-type-options'' ''nosniff'')
               ''x-frame-options'' ''DENY'')
            ''x-xss-protection'' ''1; mode=block'')
         ''referrer-policy'' ''same-origin''\<rparr>"

text \<open>
  The function \<^verbatim>\<open>respond\<close> that \<^verbatim>\<open>createHandler(router, hub, config)\<close> returns: the
  handler the router finds is called, an error it throws is rendered by
  \<^verbatim>\<open>handleError\<close>, and the response goes through \<^verbatim>\<open>withGenericHeaders\<close>. Logging
  and metrics in the \<^verbatim>\<open>finally\<close> block leave the response as it is. \<open>accepted\<close> is
  \<^verbatim>\<open>resolveAcceptedMediaTypes\<close>. The result is \<open>Inl\<close> when \<^verbatim>\<open>respond\<close> itself throws:
  when \<^verbatim>\<open>handleError\<close> throws, there is no response for the \<^verbatim>\<open>finally\<close> block to
  read the status of, and the \<^verbatim>\<open>TypeError\<close> of that read is what \<^verbatim>\<open>respond\<close> throws.
\<close>

definition respond ::
  "('rp \<Rightarrow> string \<Rightarrow> (string \<times> string) list option) \<Rightarrow> (Request \<Rightarrow> string list) \<Rightarrow>
   ('rp \<times> (string \<times> HandlerFn) list) list \<Rightarrow> Configuration \<Rightarrow> Request \<Rightarrow> error + Response" where
  "respond exec accepted routes config request =
     (case Router_match exec routes request of
        (handler, parameters) \<Rightarrow>
          (case (case handler \<lparr>context_parameters = parameters, context_request = request,
                                context_config = config\<rparr> of
                   Inr response \<Rightarrow> Inr response
                 | Inl e \<Rightarrow> handleError (accepted request) e) of
             Inl thrown \<Rightarrow>
               Inl (TypeError ''Cannot destructure property status of response as it is undefined'')
           | Inr response \<Rightarrow> Inr (withGenericHeaders response)))"

text \<open>
  The five headers that \<^verbatim>\<open>withGenericHeaders\<close> sets, as a response shows them to
  \<^verbatim>\<open>headers.get\<close>.
\<close>

definition security_headers :: "Response \<Rightarrow> bool" where
  "security_headers r =
     (Headers_get (response_headers r) ''server'' = Some ''Mercure/0.0.1 (Deno)'' \<and>
      Headers_get (response_headers r) ''x-content-type-options'' = Some ''nosniff'' \<and>
      Headers_get (response_headers r) ''x-frame-options'' = Some ''DENY'' \<and>
      Headers_get (response_headers r) ''x-xss-protection'' = Some ''1; mode=block'' \<and>
      Headers_get (response_headers r) ''referrer-policy'' = Some ''same-origin'')"

section \<open>Concrete inputs\<close>

text \<open>
  A platform for concrete runs. Its template parser knows the template
  \<^verbatim>\<open>/foo/{id}\<close> of the repository's tests; its pattern constructor rejects a relative
  pattern given without a base URL, as \<^verbatim>\<open>URLPattern\<close> does, and otherwise keeps the
  input and the base; a pattern matches the topic equal to its input; the cache stores
  without evicting.
\<close>

definition example_platform :: "(string \<times> string option) platform" where
  "example_platform =
     \<lparr>uri_parse =
        (\<lambda>template.
           if template = ''/foo/{id}''
           then Inr [LiteralExpression ''/foo/'',
                     Variable \<lparr>expr_terms =
                                 [\<lparr>term_name = ''id'', term_truncate = 0, term_explode = False\<rparr>],
                               expr_separator = '','', expr_first = '''',
                               expr_allowReserved = False, expr_named = False\<rparr>]
           else Inl (Error ''template outside the example'')),
      new_URLPattern =
        (\<lambda>input base.
           if js_includes input ''://'' \<or> base \<noteq> None then Inr (input, base)
           else Inl (TypeError ''a relative pattern must have a base URL'')),
      URLPattern_test = (\<lambda>pattern topic base. fst pattern = topic),
      lru_set = (\<lambda>cache key pattern. cache(key \<mapsto> pattern))\<rparr>"

definition example_base :: URL where
  "example_base = \<lparr>url_href = ''https://example.com/'', url_origin = ''https://example.com''\<rparr>"

definition example_update :: Update where
  "example_update =
     \<lparr>update_id = ''urn:uuid:1'', canonicalTopic = ''https://ex/a'', alternateTopics = [],
      update_data = Some ''hello'', update_private = None, update_retry = None,
      update_type = None\<rparr>"

definition second_update :: Update where
  "second_update = example_update\<lparr>update_id := ''urn:uuid:2'', update_data := Some ''world''\<rparr>"

definition third_update :: Update where
  "third_update = example_update\<lparr>update_id := ''urn:uuid:3'', update_private := Some True\<rparr>"

text \<open>
  A serialiser for concrete runs: the properties that are present, in the order of the
  type \<^verbatim>\<open>Update\<close>, with the retry time as a decimal integer. The properties of
  dispatching hold for every serialiser.
\<close>

definition example_stringify :: "Update \<Rightarrow> string" where
  "example_stringify u =
     ''{'' @
     js_join '',''
       ([json_member ''id'' (json_string (update_id u)),
         json_member ''canonicalTopic'' (json_string (canonicalTopic u)),
         json_member ''alternateTopics''
           (''['' @ js_join '','' (map json_string (alternateTopics u)) @ '']'')] @
        (case update_data u of None \<Rightarrow> [] | Some d \<Rightarrow> [json_member ''data'' (json_string d)]) @
        (case update_private u of
           None \<Rightarrow> []
         | Some b \<Rightarrow> [json_member ''private'' (if b then ''true'' else ''false'')]) @
        (case update_retry u of None \<Rightarrow> [] | Some r \<Rightarrow> [json_member ''retry'' (int_to_string r)]) @
        (case update_type u of None \<Rightarrow> [] | Some t \<Rightarrow> [json_member ''type'' (json_string t)])) @
     ''}''"

definition fresh_writer :: Writer where
  "fresh_writer = \<lparr>chunks = [], closed = False, broken = False\<rparr>"

text \<open>
  A subscriber with one wildcard subscription and no authorized topics, on a writer
  that accepts writes; and the same subscriber on a writer whose peer is gone.
\<close>

definition example_subscriber :: "(string \<times> string option) Subscriber" where
  "example_subscriber =
     \<lparr>subscriber_id = ''urn:uuid:s'',
      subscriptions =
        [\<lparr>subscription_id = ''urn:uuid:t'',
          subscription_selector = \<lparr>selector = Wildcard, baseURL = None\<rparr>\<rparr>],
      authorizedTopics = [],
      subscriber_payload = None,
      active = True,
      stream = fresh_writer,
      heartbeatTimer = None,
      lastEventId = None,
      emitted = [],
      logged = [],
      journal = []\<rparr>"

definition broken_subscriber :: "(string \<times> string option) Subscriber" where
  "broken_subscriber = example_subscriber\<lparr>stream := fresh_writer\<lparr>broken := True\<rparr>\<rparr>"

text \<open>
  A web platform for concrete runs: no query parameters, every URL string is its own
  origin, the cookie header \<^verbatim>\<open>mercureAuthorization=valid-token\<close> is the one cookie
  header understood, and \<^verbatim>\<open>valid-token\<close> is the one token that verifies.
\<close>

definition example_web :: "(string, string) web" where
  "example_web =
     \<lparr>URL_searchParam = (\<lambda>url name. None),
      URL_origin_of = (\<lambda>url. Inr url),
      getCookies =
        (\<lambda>h. if Headers_get h ''cookie'' = Some ''mercureAuthorization=valid-token''
              then [''mercureAuthorization'' \<mapsto> ''valid-token'']
              else Map.empty),
      verifyJwt =
        (\<lambda>key token. if token = ''valid-token'' then Inr ''claims''
                      else Inl (Error ''Failed to verify JWT''))\<rparr>"

text \<open>The same web platform for requests whose URL has the parameter \<^verbatim>\<open>authorization=valid-token\<close>.\<close>

definition query_web :: "(string, string) web" where
  "query_web =
     example_web\<lparr>URL_searchParam :=
       (\<lambda>url name. if name = ''authorization'' then Some ''valid-token'' else None)\<rparr>"

definition example_keyResolver :: "Configuration \<Rightarrow> error + string" where
  "example_keyResolver config = Inr ''key''"

definition example_config :: Configuration where
  "example_config =
     \<lparr>queryParamAuthorization = False, cookieName = ''mercureAuthorization'',
      anonymousAccess = True, allowedOrigins = [''https://good.example''], metrics = False\<rparr>"

definition example_request :: "Headers \<Rightarrow> Request" where
  "example_request h =
     \<lparr>request_method = ''GET'',
      request_url = ''https://hub.example/.well-known/mercure?topic=*'',
      request_headers = h\<rparr>"


text \<open>A router with the hub's route, for concrete runs of the request handler.\<close>

definition example_exec :: "string \<Rightarrow> string \<Rightarrow> (string \<times> string) list option" where
  "example_exec pattern url = (if js_includes url pattern then Some [] else None)"

definition example_accepted :: "Request \<Rightarrow> string list" where
  "example_accepted request = [''*/*'']"

definition example_routes :: "(string \<times> (string \<times> HandlerFn) list) list" where
  "example_routes =
     [(''/.well-known/mercure'',
       [(''get'', (\<lambda>ctx. Inr \<lparr>response_status = 200,
                                response_headers = [(''content-type'', ''text/event-stream'')],
                                response_body = []\<rparr>)),
        (''post'', (\<lambda>ctx. Inl (HttpError 415 ''Unsupported Media Type''
                                 [(''accept'', ''application/x-www-form-urlencoded'')])))])]"

section \<open>Properties of access control\<close>

lemma canAccess_loop_iff:
  "canAccess_loop P authorized u subs \<longleftrightarrow>
     (\<exists>sub \<in> set subs. test P (subscription_selector sub) (update_topics u)) \<and>
     (\<not> confidential u \<or> (\<exists>sel \<in> set authorized. test P sel (update_topics u)))"
  by (induction subs) (auto simp: Subscription_match_def list_ex_iff)

text \<open>
  Claim C1. For every update and subscriber: when anonymous access is disabled and the
  subscriber has no authorized topics, \<^verbatim>\<open>canAccess\<close> is false for every update; in
  every other case it is true exactly when (1) the selector of at least one
  subscription matches the topics \<open>[canonicalTopic, ...alternateTopics]\<close> and (2) the
  update is not private or at least one authorized selector matches the same topics.
\<close>

theorem canAccess_iff:
  "(\<not> anonymousAccessEnabled \<and> authorizedTopics s = [] \<longrightarrow>
      \<not> canAccess P s u anonymousAccessEnabled) \<and>
   (anonymousAccessEnabled \<or> authorizedTopics s \<noteq> [] \<longrightarrow>
      (canAccess P s u anonymousAccessEnabled \<longleftrightarrow>
         (\<exists>sub \<in> set (subscriptions s).
             test P (subscription_selector sub) (canonicalTopic u # alternateTopics u)) \<and>
         (update_private u \<noteq> Some True \<or>
          (\<exists>sel \<in> set (authorizedTopics s).
             test P sel (canonicalTopic u # alternateTopics u)))))"
  by (auto simp: canAccess_def canAccess_loop_iff confidential_def update_topics_def)

theorem canAccess_iff_witness:
  "canAccess example_platform example_subscriber example_update True \<and>
   \<not> canAccess example_platform example_subscriber example_update False \<and>
   \<not> canAccess example_platform example_subscriber third_update True"
  using canAccess_iff [of True example_subscriber example_platform example_update]
        canAccess_iff [of False example_subscriber example_platform example_update]
        canAccess_iff [of True example_subscriber example_platform third_update]
  by (simp add: example_subscriber_def example_update_def third_update_def test_def test_topic_def)

section \<open>Properties of topic selectors\<close>

lemma js_includes_char: "js_includes s [c] \<longleftrightarrow> c \<in> set s"
  by (induction s) auto

lemma test_singleton: "test P ts [topic] = test_topic P ts topic"
  by (simp add: test_def)

text \<open>
  Claim C8. For every literal topic (not \<open>*\<close>, no \<open>{\<close>) and every base URL, compiling
  the topic succeeds with a literal selector that matches the topic itself; and the
  wildcard selector, which compiling \<open>*\<close> yields, matches every topic string.
\<close>

theorem literal_matches_itself:
  "(topic \<noteq> ''*'' \<and> CHR ''{'' \<notin> set topic \<longrightarrow>
      (\<exists>sel. createTopicSelector P cache topic base = (Inr sel, cache) \<and>
             selector sel = Literal topic \<and> test P sel [topic])) \<and>
   (\<exists>w. createTopicSelector P cache ''*'' base = (Inr w, cache) \<and>
         selector w = Wildcard \<and> (\<forall>anything. test P w [anything]))"
  by (simp add: createTopicSelector_def js_includes_char test_singleton test_topic_def)

theorem literal_matches_itself_witness:
  "(''https://example.com/foo'' \<noteq> ''*'' \<and> CHR ''{'' \<notin> set ''https://example.com/foo'') \<and>
   (\<exists>sel. createTopicSelector example_platform Map.empty ''https://example.com/foo''
             (Some example_base) = (Inr sel, Map.empty) \<and>
          selector sel = Literal ''https://example.com/foo'' \<and>
          test example_platform sel [''https://example.com/foo''])"
  using literal_matches_itself [of "''https://example.com/foo''" example_platform Map.empty "Some example_base"]
  by simp

text \<open>
  The claim C7 as stated fails: a template that converts to a relative pattern, compiled
  without a base URL, yields no selector; the pattern constructor throws and
  \<^verbatim>\<open>convertToUrlPattern\<close> rethrows.
\<close>

theorem template_without_base_counterexample:
  "fst (createTopicSelector example_platform Map.empty ''/foo/{id}'' None) =
     Inl (Error (''Failed to convert '' @ [CHR 0x22] @ ''/foo/:id'' @ [CHR 0x22] @
                 '' to URLPattern: a relative pattern must have a base URL''))"
  by (simp add: createTopicSelector_def convertToUrlPattern_def example_platform_def buildTerm_def)

text \<open>
  Claim C7, amended. Compiling the exact string \<open>*\<close> yields the wildcard selector. Any
  other string containing \<open>{\<close> yields the template selector holding the pattern that
  \<^verbatim>\<open>convertToUrlPattern\<close> returns, whenever that conversion succeeds; when it throws,
  compiling throws the same error and yields no selector. Every remaining string yields
  the literal selector, which matches exactly the topics equal to it.
\<close>

theorem createTopicSelector_variants:
  "(topic = ''*'' \<longrightarrow>
      createTopicSelector P cache topic base = (Inr \<lparr>selector = Wildcard, baseURL = base\<rparr>, cache) \<and>
      selector_type \<lparr>selector = Wildcard, baseURL = base\<rparr> = ''wildcard'') \<and>
   (topic \<noteq> ''*'' \<and> CHR ''{'' \<in> set topic \<longrightarrow>
      (\<forall>pattern cache'. convertToUrlPattern P cache topic base = (Inr pattern, cache') \<longrightarrow>
          createTopicSelector P cache topic base =
            (Inr \<lparr>selector = Pattern pattern, baseURL = base\<rparr>, cache') \<and>
          selector_type \<lparr>selector = Pattern pattern, baseURL = base\<rparr> = ''template'') \<and>
      (\<forall>e cache'. convertToUrlPattern P cache topic base = (Inl e, cache') \<longrightarrow>
          createTopicSelector P cache topic base = (Inl e, cache'))) \<and>
   (topic \<noteq> ''*'' \<and> CHR ''{'' \<notin> set topic \<longrightarrow>
      createTopicSelector P cache topic base = (Inr \<lparr>selector = Literal topic, baseURL = base\<rparr>, cache) \<and>
      selector_type \<lparr>selector = Literal topic, baseURL = base\<rparr> = ''literal'' \<and>
      (\<forall>other. test P \<lparr>selector = Literal topic, baseURL = base\<rparr> [other] \<longleftrightarrow> topic = other))"
  by (simp add: createTopicSelector_def js_includes_char test_singleton test_topic_def selector_type_def)

lemma example_conversion:
  "convertToUrlPattern example_platform Map.empty ''/foo/{id}'' (Some example_base) =
     (Inr (''/foo/:id'', Some ''https://example.com''),
      [''/foo/{id}'' \<mapsto> (''/foo/:id'', Some ''https://example.com'')])"
  by (simp add: convertToUrlPattern_def example_platform_def buildTerm_def example_base_def)

theorem createTopicSelector_variants_witness:
  "createTopicSelector example_platform Map.empty ''*'' None =
     (Inr \<lparr>selector = Wildcard, baseURL = None\<rparr>, Map.empty) \<and>
   fst (createTopicSelector example_platform Map.empty ''/foo/{id}'' (Some example_base)) =
     Inr \<lparr>selector = Pattern (''/foo/:id'', Some ''https://example.com''), baseURL = Some example_base\<rparr> \<and>
   createTopicSelector example_platform Map.empty ''https://example.com/foo'' None =
     (Inr \<lparr>selector = Literal ''https://example.com/foo'', baseURL = None\<rparr>, Map.empty)"
proof -
  have a: "createTopicSelector example_platform Map.empty ''*'' None =
      (Inr \<lparr>selector = Wildcard, baseURL = None\<rparr>, Map.empty)"
    using createTopicSelector_variants [of "''*''" example_platform Map.empty None] by blast
  have b: "fst (createTopicSelector example_platform Map.empty ''/foo/{id}'' (Some example_base)) =
      Inr \<lparr>selector = Pattern (''/foo/:id'', Some ''https://example.com''), baseURL = Some example_base\<rparr>"
    using createTopicSelector_variants [of "''/foo/{id}''" example_platform Map.empty "Some example_base"]
      example_conversion by auto
  have c: "createTopicSelector example_platform Map.empty ''https://example.com/foo'' None =
      (Inr \<lparr>selector = Literal ''https://example.com/foo'', baseURL = None\<rparr>, Map.empty)"
    using createTopicSelector_variants [of "''https://example.com/foo''" example_platform Map.empty None]
    by auto
  from a b c show ?thesis by blast
qed

section \<open>Properties of dispatching to a subscriber\<close>

lemma example_frame:
  "dispatch_frame example_stringify example_update =
     ''data: {'' @ [CHR 0x22] @ ''id'' @ [CHR 0x22] @ '':'' @ [CHR 0x22] @ ''urn:uuid:1'' @ [CHR 0x22] @
     '','' @ [CHR 0x22] @ ''canonicalTopic'' @ [CHR 0x22] @ '':'' @ [CHR 0x22] @ ''https://ex/a'' @ [CHR 0x22] @
     '','' @ [CHR 0x22] @ ''alternateTopics'' @ [CHR 0x22] @ '':[],'' @
     [CHR 0x22] @ ''data'' @ [CHR 0x22] @ '':'' @ [CHR 0x22] @ ''hello'' @ [CHR 0x22] @ ''}'' @
     [CHR 0x0A, CHR 0x0A]"
  by (simp add: dispatch_frame_def example_stringify_def example_update_def json_member_def
      json_string_def json_escape_char_def)

lemma dispatch_journal:
  "journal (dispatch stringify s u) =
     journal s @
     [Assign_lastEventId (update_id u), Stream_write (dispatch_frame stringify u)] @
     (if closed (stream s) \<or> broken (stream s) then [Log_error ''Error writing to stream''] else []) @
     [Dispatch_event (Message u)]"
  by (simp add: dispatch_def dispatch_write_def dispatch_record_def EventStream_write_def
      writer_write_def)

lemma dispatch_chunks:
  "chunks (stream (dispatch stringify s u)) =
     (if closed (stream s) \<or> broken (stream s) then chunks (stream s)
      else chunks (stream s) @ [dispatch_frame stringify u])"
  by (simp add: dispatch_def dispatch_write_def dispatch_record_def EventStream_write_def
      writer_write_def)

lemma dispatch_frame_not_specified: "dispatch_frame stringify u \<noteq> specified_sse_frame u"
  by (simp add: dispatch_frame_def specified_sse_frame_def)

text \<open>
  Claim C3, on the code. For every update, \<^verbatim>\<open>dispatch(update)\<close> assigns
  \<open>lastEventId = update.id\<close> first and attempts the stream write after it, as the
  claim says. The bytes it hands to the stream are the single chunk \<open>data: \<close>, the
  JSON serialisation of the whole update and a blank line, whatever the serialiser
  returns; for no update is that the frame of the claim, which starts with the line
  \<open>id: <update.id>\<close> and carries the update's data in its \<open>data:\<close> line.
\<close>

theorem dispatch_writes_json_frame:
  "journal (dispatch stringify s u) =
     journal s @
     [Assign_lastEventId (update_id u),
      Stream_write (''data: '' @ stringify u @ [CHR 0x0A, CHR 0x0A])] @
     (if closed (stream s) \<or> broken (stream s) then [Log_error ''Error writing to stream''] else []) @
     [Dispatch_event (Message u)] \<and>
   lastEventId (dispatch stringify s u) = Some (update_id u) \<and>
   chunks (stream (dispatch stringify s u)) =
     (if closed (stream s) \<or> broken (stream s) then chunks (stream s)
      else chunks (stream s) @ [''data: '' @ stringify u @ [CHR 0x0A, CHR 0x0A]]) \<and>
   ''data: '' @ stringify u @ [CHR 0x0A, CHR 0x0A] \<noteq> specified_sse_frame u"
proof -
  have frame: "dispatch_frame stringify u = ''data: '' @ stringify u @ [CHR 0x0A, CHR 0x0A]"
    by (simp add: dispatch_frame_def)
  have last: "lastEventId (dispatch stringify s u) = Some (update_id u)"
    by (simp add: dispatch_def dispatch_write_def dispatch_record_def split: prod.splits)
  from dispatch_journal [of stringify s u] dispatch_chunks [of stringify s u]
       dispatch_frame_not_specified [of stringify u] last
  show ?thesis unfolding frame by simp
qed

text \<open>
  The failing input: the example update, dispatched to a subscriber on a fresh stream.
  The claim's frame is \<open>id: urn:uuid:1\<close>, \<open>data: hello\<close> and a blank line; the one
  chunk written starts with \<open>data: \<close> and is followed by the serialised update.
\<close>

theorem dispatch_writes_json_frame_witness:
  "journal (dispatch example_stringify example_subscriber example_update) =
     [Assign_lastEventId ''urn:uuid:1'',
      Stream_write (''data: '' @ example_stringify example_update @ [CHR 0x0A, CHR 0x0A]),
      Dispatch_event (Message example_update)] \<and>
   chunks (stream (dispatch example_stringify example_subscriber example_update)) =
     [''data: '' @ example_stringify example_update @ [CHR 0x0A, CHR 0x0A]] \<and>
   specified_sse_frame example_update =
     ''id: urn:uuid:1'' @ [CHR 0x0A] @ ''data: hello'' @ [CHR 0x0A, CHR 0x0A] \<and>
   ''data: '' @ example_stringify example_update @ [CHR 0x0A, CHR 0x0A] \<noteq>
     specified_sse_frame example_update"
proof -
  have fresh: "journal example_subscriber = [] \<and> chunks (stream example_subscriber) = [] \<and>
      \<not> closed (stream example_subscriber) \<and> \<not> broken (stream example_subscriber)"
    by (simp add: example_subscriber_def fresh_writer_def)
  have id: "update_id example_update = ''urn:uuid:1''"
    by (simp add: example_update_def)
  have specified: "specified_sse_frame example_update =
      ''id: urn:uuid:1'' @ [CHR 0x0A] @ ''data: hello'' @ [CHR 0x0A, CHR 0x0A]"
    by (simp add: specified_sse_frame_def example_update_def)
  from dispatch_writes_json_frame [of example_stringify example_subscriber example_update]
       fresh id specified
  show ?thesis by simp
qed

text \<open>
  The claim C4 as stated fails: on a writer that rejects the write, the subscriber is
  still active after \<^verbatim>\<open>dispatch\<close> and its stream has not been closed.
\<close>

theorem write_failure_counterexample:
  "fst (writer_write (stream broken_subscriber) (dispatch_frame example_stringify example_update)) =
     Inl (TypeError ''The stream is closed or errored'') \<and>
   active (dispatch example_stringify broken_subscriber example_update) \<and>
   \<not> closed (stream (dispatch example_stringify broken_subscriber example_update))"
  by (simp add: dispatch_def dispatch_write_def dispatch_record_def EventStream_write_def
      writer_write_def broken_subscriber_def example_subscriber_def fresh_writer_def)

text \<open>
  Claim C4, amended. If the write to the underlying stream fails during
  \<^verbatim>\<open>dispatch(update)\<close>, the error is caught in \<^verbatim>\<open>EventStream.write\<close> and logged as
  \<open>Error writing to stream\<close>; \<^verbatim>\<open>dispatch\<close> completes, the subscriber keeps its
  \<open>active\<close> flag, its stream, its heartbeat timer and its subscriptions as they were,
  the \<open>message\<close> event is still emitted and \<open>lastEventId\<close> is the update's id.
\<close>

theorem write_failure_is_logged_only:
  "fst (writer_write (stream s) (dispatch_frame stringify u)) = Inl e \<Longrightarrow>
     active (dispatch stringify s u) = active s \<and>
     stream (dispatch stringify s u) = stream s \<and>
     subscriptions (dispatch stringify s u) = subscriptions s \<and>
     heartbeatTimer (dispatch stringify s u) = heartbeatTimer s \<and>
     logged (dispatch stringify s u) = logged s @ [''Error writing to stream''] \<and>
     emitted (dispatch stringify s u) = emitted s @ [Message u] \<and>
     lastEventId (dispatch stringify s u) = Some (update_id u)"
  by (auto simp: dispatch_def dispatch_write_def dispatch_record_def EventStream_write_def
      writer_write_def split: if_splits)

theorem write_failure_is_logged_only_witness:
  "fst (writer_write (stream broken_subscriber) (dispatch_frame example_stringify example_update)) =
     Inl (TypeError ''The stream is closed or errored'') \<and>
   active (dispatch example_stringify broken_subscriber example_update) \<and>
   logged (dispatch example_stringify broken_subscriber example_update) = [''Error writing to stream'']"
proof -
  have failing: "fst (writer_write (stream broken_subscriber)
      (dispatch_frame example_stringify example_update)) =
      Inl (TypeError ''The stream is closed or errored'')"
    by (simp add: writer_write_def broken_subscriber_def example_subscriber_def fresh_writer_def)
  from write_failure_is_logged_only [OF failing] failing show ?thesis
    by (simp add: broken_subscriber_def example_subscriber_def)
qed

text \<open>
  Deactivating a subscriber and closing its stream is what \<^verbatim>\<open>close()\<close> does;
  \<^verbatim>\<open>dispatch\<close> never changes the \<open>active\<close> flag and never closes the stream, whether
  its write succeeds or fails.
\<close>

lemma close_deactivates:
  "active (snd (Subscriber_close s)) = False \<and>
   (\<not> closed (stream s) \<and> \<not> broken (stream s) \<longrightarrow> closed (stream (snd (Subscriber_close s))))"
  by (simp add: Subscriber_close_def writer_close_def split: prod.splits)

lemma dispatch_keeps_active:
  "active (dispatch stringify s u) = active s \<and>
   closed (stream (dispatch stringify s u)) = closed (stream s) \<and>
   subscriptions (dispatch stringify s u) = subscriptions s"
  by (simp add: dispatch_def dispatch_write_def dispatch_record_def EventStream_write_def
      writer_write_def)

section \<open>Properties of the in-memory transport\<close>

lemma store_dispatch_update:
  "store (MemoryTransport_dispatchEvent t (UpdateEvent u)) = RingBuffer_push (store t) u"
  by (simp add: MemoryTransport_dispatchEvent_def EventTarget_dispatch_def)



lemma store_publish_all: "store (publish_all t us) = foldl RingBuffer_push (store t) us"
  by (induction us arbitrary: t) (simp_all add: publish_all_def store_dispatch_update)

lemma limit_push: "limit (RingBuffer_push rb v) = limit rb"
  by (simp add: RingBuffer_push_def Let_def)

lemma push_with_room:
  "(case limit rb of None \<Rightarrow> True | Some l \<Rightarrow> l < 0 \<or> int (length (buffer rb)) < l) \<Longrightarrow>
   buffer (RingBuffer_push rb v) = buffer rb @ [v]"
  by (auto simp: RingBuffer_push_def Let_def split: option.splits)

lemma push_many_with_room:
  "(case limit rb of None \<Rightarrow> True | Some l \<Rightarrow> l < 0 \<or> int (length (buffer rb) + length vs) \<le> l) \<Longrightarrow>
   buffer (foldl RingBuffer_push rb vs) = buffer rb @ vs"
proof (induction vs arbitrary: rb)
  case Nil
  then show ?case by simp
next
  case (Cons v vs)
  have room: "case limit rb of None \<Rightarrow> True | Some l \<Rightarrow> l < 0 \<or> int (length (buffer rb)) < l"
    using Cons.prems by (auto split: option.splits)
  have step: "buffer (RingBuffer_push rb v) = buffer rb @ [v]"
    using room by (rule push_with_room)
  have "case limit (RingBuffer_push rb v) of None \<Rightarrow> True
        | Some l \<Rightarrow> l < 0 \<or> int (length (buffer (RingBuffer_push rb v)) + length vs) \<le> l"
    using Cons.prems by (auto simp: limit_push step split: option.splits)
  from Cons.IH [OF this] show ?case by (simp add: step)
qed

lemma store_new:
  "store (MemoryTransport_new lim) =
     \<lparr>buffer = [], limit = (case lim of None \<Rightarrow> None | Some l \<Rightarrow> if l = 0 then None else Some l),
      pointer = 0\<rparr>"
  by (simp add: MemoryTransport_new_def RingBuffer_new_def RingBuffer_set_limit_def Let_def
      split: option.splits)

lemma buffer_publish_all_new:
  assumes "case lim of None \<Rightarrow> True | Some l \<Rightarrow> l \<le> 0 \<or> int (length us) \<le> l"
  shows "buffer (store (publish_all (MemoryTransport_new lim) us)) = us"
proof -
  have "case limit (store (MemoryTransport_new lim)) of None \<Rightarrow> True
        | Some l \<Rightarrow> l < 0 \<or> int (length (buffer (store (MemoryTransport_new lim))) + length us) \<le> l"
    using assms by (auto simp: store_new split: option.splits)
  from push_many_with_room [OF this] show ?thesis
    by (simp add: store_publish_all store_new)
qed

lemma eventsAfter_loop_True: "eventsAfter_loop True lid us = us"
  by (induction us) simp_all

lemma eventsAfter_loop_absent:
  "lid \<notin> update_id ` set us \<Longrightarrow> eventsAfter_loop False lid us = []"
  by (induction us) auto

lemma eventsAfter_loop_first_occurrence:
  "update_id uk \<notin> update_id ` set pre \<Longrightarrow>
   eventsAfter_loop False (update_id uk) (pre @ uk # post) = post"
  by (induction pre) (auto simp: eventsAfter_loop_True)

text \<open>
  Claim C2, amended. For the in-memory transport whose store has not overwritten an
  update (no limit, or at most \<open>limit\<close> updates published), after publishing
  \<open>u1..un\<close> in that order: the sentinel id \<open>earliest\<close> yields \<open>u1..un\<close> in publication
  order; when the ids are pairwise distinct and none is the sentinel, \<open>eventsAfter\<close>
  of the id of the update at position \<open>k\<close> yields exactly the updates published after
  it, in publication order. In every state of the transport, an id that is neither
  the id of a stored update nor the sentinel yields nothing.
\<close>

theorem eventsAfter_replay:
  "((case lim of None \<Rightarrow> True | Some l \<Rightarrow> l \<le> 0 \<or> int (length us) \<le> l) \<longrightarrow>
      MemoryTransport_eventsAfter (publish_all (MemoryTransport_new lim) us) (Some earliestEventId) = us \<and>
      (distinct (map update_id us) \<and> earliestEventId \<notin> update_id ` set us \<longrightarrow>
         (\<forall>k < length us.
            MemoryTransport_eventsAfter (publish_all (MemoryTransport_new lim) us)
              (Some (update_id (us ! k))) = drop (Suc k) us))) \<and>
   (\<forall>lid. lid \<notin> update_id ` set (buffer (store t)) \<and> lid \<noteq> earliestEventId \<longrightarrow>
      MemoryTransport_eventsAfter t (Some lid) = [])"
proof -
  have absent: "MemoryTransport_eventsAfter t (Some lid) = []"
    if "lid \<notin> update_id ` set (buffer (store t))" "lid \<noteq> earliestEventId" for lid
    using that by (simp add: MemoryTransport_eventsAfter_def eventsAfter_loop_absent)
  have replay:
    "MemoryTransport_eventsAfter (publish_all (MemoryTransport_new lim) us) (Some earliestEventId) = us \<and>
     (distinct (map update_id us) \<and> earliestEventId \<notin> update_id ` set us \<longrightarrow>
        (\<forall>k < length us.
           MemoryTransport_eventsAfter (publish_all (MemoryTransport_new lim) us)
             (Some (update_id (us ! k))) = drop (Suc k) us))"
    if room: "case lim of None \<Rightarrow> True | Some l \<Rightarrow> l \<le> 0 \<or> int (length us) \<le> l"
  proof -
    have buf: "buffer (store (publish_all (MemoryTransport_new lim) us)) = us"
      using room by (rule buffer_publish_all_new)
    have earliest: "MemoryTransport_eventsAfter (publish_all (MemoryTransport_new lim) us)
        (Some earliestEventId) = us"
      by (simp add: MemoryTransport_eventsAfter_def buf eventsAfter_loop_True)
    have after: "MemoryTransport_eventsAfter (publish_all (MemoryTransport_new lim) us)
        (Some (update_id (us ! k))) = drop (Suc k) us"
      if d: "distinct (map update_id us)" and e: "earliestEventId \<notin> update_id ` set us"
        and k: "k < length us" for k
    proof -
      have split: "us = take k us @ us ! k # drop (Suc k) us"
        using k by (rule id_take_nth_drop)
      have "distinct (map update_id (take k us) @ update_id (us ! k) # map update_id (drop (Suc k) us))"
        using d split by (metis list.simps(9) map_append)
      then have fresh: "update_id (us ! k) \<notin> update_id ` set (take k us)"
        by auto
      have "update_id (us ! k) \<noteq> earliestEventId"
        using e k by (metis image_eqI nth_mem)
      moreover have "eventsAfter_loop False (update_id (us ! k)) us = drop (Suc k) us"
        using eventsAfter_loop_first_occurrence [OF fresh, of "drop (Suc k) us"] split by simp
      ultimately show ?thesis
        by (simp add: MemoryTransport_eventsAfter_def buf)
    qed
    from earliest after show ?thesis by blast
  qed
  from absent replay show ?thesis by blast
qed

lemma example_ids:
  "update_id example_update = ''urn:uuid:1'' \<and> update_id second_update = ''urn:uuid:2'' \<and>
   update_id third_update = ''urn:uuid:3''"
  by (simp add: example_update_def second_update_def third_update_def)

text \<open>
  The claim C2 as stated fails for a bounded store: with a limit of one update, the
  second publication replaces the first, and replaying after the first update's id
  yields nothing instead of the second update.
\<close>

theorem evicted_update_counterexample:
  "MemoryTransport_eventsAfter
     (publish_all (MemoryTransport_new (Some 1)) [example_update, second_update])
     (Some (update_id example_update)) = [] \<and>
   drop (Suc 0) [example_update, second_update] = [second_update]"
  by (simp add: MemoryTransport_eventsAfter_def publish_all_def MemoryTransport_dispatchEvent_def
      EventTarget_dispatch_def MemoryTransport_new_def RingBuffer_new_def RingBuffer_set_limit_def
      RingBuffer_push_def RingBuffer_clear_def js_rem_def earliestEventId_def example_ids)

theorem eventsAfter_replay_witness:
  "MemoryTransport_eventsAfter
     (publish_all (MemoryTransport_new None) [example_update, second_update, third_update])
     (Some (update_id example_update)) = [second_update, third_update] \<and>
   MemoryTransport_eventsAfter
     (publish_all (MemoryTransport_new (Some 3)) [example_update, second_update, third_update])
     (Some earliestEventId) = [example_update, second_update, third_update] \<and>
   MemoryTransport_eventsAfter (MemoryTransport_new None) (Some ''urn:uuid:1'') = []"
proof -
  let ?us = "[example_update, second_update, third_update]"
  have ids: "distinct (map update_id ?us) \<and> earliestEventId \<notin> update_id ` set ?us"
    by (simp add: example_ids earliestEventId_def)
  have unbounded: "case None :: int option of None \<Rightarrow> True | Some l \<Rightarrow> l \<le> 0 \<or> int (length ?us) \<le> l"
    by simp
  have bounded: "case Some 3 of None \<Rightarrow> True | Some l \<Rightarrow> l \<le> 0 \<or> int (length ?us) \<le> l"
    by simp
  have empty: "''urn:uuid:1'' \<notin> update_id ` set (buffer (store (MemoryTransport_new None))) \<and>
      ''urn:uuid:1'' \<noteq> earliestEventId"
    by (simp add: store_new earliestEventId_def)
  have "MemoryTransport_eventsAfter (publish_all (MemoryTransport_new None) ?us)
          (Some (update_id (?us ! 0))) = drop (Suc 0) ?us"
    using eventsAfter_replay [where lim = None and us = ?us] unbounded ids by (metis length_Cons zero_less_Suc)
  moreover have "MemoryTransport_eventsAfter (publish_all (MemoryTransport_new (Some 3)) ?us)
          (Some earliestEventId) = ?us"
    using eventsAfter_replay [where lim = "Some 3" and us = ?us] bounded by blast
  moreover have "MemoryTransport_eventsAfter (MemoryTransport_new None) (Some ''urn:uuid:1'') = []"
    using eventsAfter_replay [where t = "MemoryTransport_new None"] empty by blast
  ultimately show ?thesis by simp
qed

text \<open>
  Once a bounded store has wrapped around, the buffer is iterated in storage order:
  with a limit of two and three updates published, the replay from the beginning
  yields the third update before the second, and the replay after the second update
  yields nothing.
\<close>

lemma wrapped_buffer_order:
  "map update_id
     (MemoryTransport_eventsAfter
        (publish_all (MemoryTransport_new (Some 2)) [example_update, second_update, third_update])
        (Some earliestEventId)) = [''urn:uuid:3'', ''urn:uuid:2''] \<and>
   MemoryTransport_eventsAfter
     (publish_all (MemoryTransport_new (Some 2)) [example_update, second_update, third_update])
     (Some (update_id second_update)) = []"
  by (simp add: MemoryTransport_eventsAfter_def publish_all_def MemoryTransport_dispatchEvent_def
      EventTarget_dispatch_def MemoryTransport_new_def RingBuffer_new_def RingBuffer_set_limit_def
      RingBuffer_push_def RingBuffer_clear_def js_rem_def earliestEventId_def example_ids)







section \<open>Properties of authorization\<close>

lemmas example_web_simps =
  example_web_def example_config_def example_request_def example_keyResolver_def
  Headers_get_def toLowerCase_def lower_char_def truthy_def

lemma js_split_nonempty: "js_split sep s \<noteq> []"
  by (induction s) (auto split: list.splits)

lemma js_split_without_separator: "sep \<notin> set w \<Longrightarrow> js_split sep w = [w]"
  by (induction w) auto

lemma js_split_at_first_separator:
  "sep \<notin> set w \<Longrightarrow> js_split sep (w @ sep # rest) = w # js_split sep rest"
  by (induction w) auto

lemma js_split2_bearer:
  "CHR '' '' \<notin> set token \<Longrightarrow> js_split2 CHR '' '' (''Bearer '' @ token) = [''Bearer'', token]"
  using js_split_at_first_separator [of "CHR '' ''" "''Bearer''" token]
  by (simp add: js_split2_def js_split_without_separator)

text \<open>
  The claim C5 as stated fails for a token presented in the \<^verbatim>\<open>Authorization\<close> header
  and for one presented in the \<^verbatim>\<open>authorization\<close> query parameter: the request's origin
  is not among the allowed origins, which do not hold \<open>*\<close>, and \<^verbatim>\<open>authorize\<close> succeeds
  with the payload of the token.
\<close>

theorem header_token_skips_origin_counterexample:
  "resolve_origin example_web
     (example_request [(''authorization'', ''Bearer valid-token''),
                       (''origin'', ''https://evil.example'')]) =
     Inr (Some ''https://evil.example'') \<and>
   allowedOrigins example_config = [''https://good.example''] \<and>
   authorize example_web
     (example_request [(''authorization'', ''Bearer valid-token''),
                       (''origin'', ''https://evil.example'')])
     example_config example_keyResolver = Inr (Some ''claims'') \<and>
   resolve_origin query_web (example_request [(''origin'', ''https://evil.example'')]) =
     Inr (Some ''https://evil.example'') \<and>
   authorize query_web (example_request [(''origin'', ''https://evil.example'')])
     (example_config\<lparr>queryParamAuthorization := True\<rparr>) example_keyResolver =
     Inr (Some ''claims'')"
  by (simp add: authorize_def resolve_origin_def query_web_def example_web_simps js_split2_def
      parseToken_with_def parseToken_def)

text \<open>
  Claim C5, amended. For every request that carries no \<^verbatim>\<open>Authorization\<close> header and
  whose token is not taken from the \<^verbatim>\<open>authorization\<close> query parameter, and that has a
  cookie token or is made while anonymous access is enabled: if its resolved origin
  (the \<^verbatim>\<open>Origin\<close> header, falling back to the origin of the \<^verbatim>\<open>Referer\<close> header) is
  non-empty, is not in the allowed origins, and \<open>*\<close> is not in them either, then
  \<^verbatim>\<open>authorize\<close> fails with a 403 response. A token presented in the
  \<^verbatim>\<open>Authorization\<close> header as \<open>Bearer <token>\<close>, or in the query parameter when
  query-parameter authorization is enabled and there is no \<^verbatim>\<open>Authorization\<close> header,
  is verified without any origin check: the outcome of \<^verbatim>\<open>authorize\<close> is the outcome of
  resolving the key and verifying the token, whatever the origin and the allowed
  origins are.
\<close>

theorem origin_check_scope:
  "(\<not> truthy (Headers_get (request_headers request) ''authorization'') \<and>
    \<not> (queryParamAuthorization config \<and>
       truthy (URL_searchParam W (request_url request) ''authorization'')) \<and>
    (truthy (getCookies W (request_headers request) (cookieName config)) \<or> anonymousAccess config) \<longrightarrow>
      (\<forall>origin. resolve_origin W request = Inr (Some origin) \<and> origin \<noteq> [] \<and>
                origin \<notin> set (allowedOrigins config) \<and> ''*'' \<notin> set (allowedOrigins config) \<longrightarrow>
          authorize W request config keyResolver = Inl (HttpError 403 ''Forbidden'' []))) \<and>
   (\<forall>token. Headers_get (request_headers request) ''authorization'' = Some (''Bearer '' @ token) \<and>
             token \<noteq> [] \<and> CHR '' '' \<notin> set token \<longrightarrow>
       authorize W request config keyResolver =
         map_sum id Some (parseToken_with W keyResolver config token)) \<and>
   (\<forall>token. \<not> truthy (Headers_get (request_headers request) ''authorization'') \<and>
             queryParamAuthorization config \<and>
             URL_searchParam W (request_url request) ''authorization'' = Some token \<and>
             token \<noteq> [] \<longrightarrow>
       authorize W request config keyResolver =
         map_sum id Some (parseToken_with W keyResolver config token))"
proof -
  have guarded: "authorize W request config keyResolver = Inl (HttpError 403 ''Forbidden'' [])"
    if "\<not> truthy (Headers_get (request_headers request) ''authorization'')"
      "\<not> (queryParamAuthorization config \<and>
          truthy (URL_searchParam W (request_url request) ''authorization''))"
      "truthy (getCookies W (request_headers request) (cookieName config)) \<or> anonymousAccess config"
      "resolve_origin W request = Inr (Some origin)" "origin \<noteq> []"
      "origin \<notin> set (allowedOrigins config)" "''*'' \<notin> set (allowedOrigins config)"
    for origin
    using that by (auto simp: authorize_def Let_def truthy_def)
  have header: "authorize W request config keyResolver =
      map_sum id Some (parseToken_with W keyResolver config token)"
    if "Headers_get (request_headers request) ''authorization'' = Some (''Bearer '' @ token)"
      "token \<noteq> []" "CHR '' '' \<notin> set token"
    for token
  proof -
    have parts: "js_split2 CHR '' '' (''Bearer '' @ token) = [''Bearer'', token]"
      using that(3) by (rule js_split2_bearer)
    from that(1,2) parts show ?thesis
      by (simp add: authorize_def Let_def truthy_def)
  qed
  have query: "authorize W request config keyResolver =
      map_sum id Some (parseToken_with W keyResolver config token)"
    if "\<not> truthy (Headers_get (request_headers request) ''authorization'')"
      "queryParamAuthorization config"
      "URL_searchParam W (request_url request) ''authorization'' = Some token" "token \<noteq> []"
    for token
    using that by (simp add: authorize_def Let_def truthy_def)
  from guarded header query show ?thesis by blast
qed

theorem origin_check_scope_witness:
  "authorize example_web
     (example_request [(''cookie'', ''mercureAuthorization=valid-token''),
                       (''origin'', ''https://evil.example'')])
     example_config example_keyResolver = Inl (HttpError 403 ''Forbidden'' []) \<and>
   authorize example_web (example_request [(''referer'', ''https://evil.example'')])
     example_config example_keyResolver = Inl (HttpError 403 ''Forbidden'' []) \<and>
   authorize example_web
     (example_request [(''authorization'', ''Bearer valid-token''),
                       (''origin'', ''https://evil.example'')])
     example_config example_keyResolver = Inr (Some ''claims'') \<and>
   authorize example_web
     (example_request [(''authorization'', ''Bearer forged-token''),
                       (''origin'', ''https://good.example'')])
     example_config example_keyResolver = Inl (HttpError 403 ''Forbidden'' []) \<and>
   authorize query_web (example_request [(''origin'', ''https://evil.example'')])
     (example_config\<lparr>queryParamAuthorization := True\<rparr>) example_keyResolver =
     Inr (Some ''claims'')"
proof -
  let ?cookie = "example_request [(''cookie'', ''mercureAuthorization=valid-token''),
                                  (''origin'', ''https://evil.example'')]"
  let ?anonymous = "example_request [(''referer'', ''https://evil.example'')]"
  let ?header = "example_request [(''authorization'', ''Bearer valid-token''),
                                  (''origin'', ''https://evil.example'')]"
  let ?forged = "example_request [(''authorization'', ''Bearer forged-token''),
                                  (''origin'', ''https://good.example'')]"
  let ?query = "example_request [(''origin'', ''https://evil.example'')]"
  let ?query_config = "example_config\<lparr>queryParamAuthorization := True\<rparr>"
  have cookie_pre:
    "\<not> truthy (Headers_get (request_headers ?cookie) ''authorization'') \<and>
     \<not> (queryParamAuthorization example_config \<and>
        truthy (URL_searchParam example_web (request_url ?cookie) ''authorization'')) \<and>
     (truthy (getCookies example_web (request_headers ?cookie) (cookieName example_config)) \<or>
      anonymousAccess example_config)"
    "resolve_origin example_web ?cookie = Inr (Some ''https://evil.example'') \<and>
     ''https://evil.example'' \<noteq> [] \<and>
     ''https://evil.example'' \<notin> set (allowedOrigins example_config) \<and>
     ''*'' \<notin> set (allowedOrigins example_config)"
    by (simp_all add: resolve_origin_def example_web_simps)
  have anonymous_pre:
    "\<not> truthy (Headers_get (request_headers ?anonymous) ''authorization'') \<and>
     \<not> (queryParamAuthorization example_config \<and>
        truthy (URL_searchParam example_web (request_url ?anonymous) ''authorization'')) \<and>
     (truthy (getCookies example_web (request_headers ?anonymous) (cookieName example_config)) \<or>
      anonymousAccess example_config)"
    "resolve_origin example_web ?anonymous = Inr (Some ''https://evil.example'') \<and>
     ''https://evil.example'' \<noteq> [] \<and>
     ''https://evil.example'' \<notin> set (allowedOrigins example_config) \<and>
     ''*'' \<notin> set (allowedOrigins example_config)"
    by (simp_all add: resolve_origin_def example_web_simps)
  have header_pre:
    "Headers_get (request_headers ?header) ''authorization'' = Some (''Bearer '' @ ''valid-token'') \<and>
     ''valid-token'' \<noteq> [] \<and> CHR '' '' \<notin> set ''valid-token''"
    "Headers_get (request_headers ?forged) ''authorization'' = Some (''Bearer '' @ ''forged-token'') \<and>
     ''forged-token'' \<noteq> [] \<and> CHR '' '' \<notin> set ''forged-token''"
    by (simp_all add: example_web_simps)
  have query_pre:
    "\<not> truthy (Headers_get (request_headers ?query) ''authorization'') \<and>
     queryParamAuthorization ?query_config \<and>
     URL_searchParam query_web (request_url ?query) ''authorization'' = Some ''valid-token'' \<and>
     ''valid-token'' \<noteq> []"
    by (simp add: query_web_def example_web_simps)
  have verified:
    "map_sum id Some (parseToken_with example_web example_keyResolver example_config ''valid-token'') =
       Inr (Some ''claims'')"
    "map_sum id Some (parseToken_with example_web example_keyResolver example_config ''forged-token'') =
       Inl (HttpError 403 ''Forbidden'' [])"
    "map_sum id Some (parseToken_with query_web example_keyResolver ?query_config ''valid-token'') =
       Inr (Some ''claims'')"
    by (simp_all add: parseToken_with_def parseToken_def query_web_def example_web_def
        example_keyResolver_def)
  note scope = origin_check_scope
  have a: "authorize example_web ?cookie example_config example_keyResolver =
      Inl (HttpError 403 ''Forbidden'' [])"
    using scope [of ?cookie example_config example_web example_keyResolver] cookie_pre by blast
  have b: "authorize example_web ?anonymous example_config example_keyResolver =
      Inl (HttpError 403 ''Forbidden'' [])"
    using scope [of ?anonymous example_config example_web example_keyResolver] anonymous_pre by blast
  have c: "authorize example_web ?header example_config example_keyResolver = Inr (Some ''claims'')"
    using scope [of ?header example_config example_web example_keyResolver] header_pre(1) verified(1)
    by metis
  have d: "authorize example_web ?forged example_config example_keyResolver =
      Inl (HttpError 403 ''Forbidden'' [])"
    using scope [of ?forged example_config example_web example_keyResolver] header_pre(2) verified(2)
    by metis
  have e: "authorize query_web ?query ?query_config example_keyResolver = Inr (Some ''claims'')"
    using scope [of ?query ?query_config query_web example_keyResolver] query_pre verified(3)
    by metis
  from a b c d e show ?thesis by blast
qed

text \<open>
  The claim C6 as stated fails: with anonymous access enabled, a request with no token
  in the header, the query or the cookie, whose origin is not allowed, fails with 403
  instead of succeeding anonymously.
\<close>

theorem anonymous_disallowed_origin_counterexample:
  "anonymousAccess example_config \<and>
   Headers_get (request_headers (example_request [(''origin'', ''https://evil.example'')]))
     ''authorization'' = None \<and>
   URL_searchParam example_web
     (request_url (example_request [(''origin'', ''https://evil.example'')])) ''authorization'' = None \<and>
   getCookies example_web (request_headers (example_request [(''origin'', ''https://evil.example'')]))
     (cookieName example_config) = None \<and>
   authorize example_web (example_request [(''origin'', ''https://evil.example'')])
     example_config example_keyResolver = Inl (HttpError 403 ''Forbidden'' [])"
  by (simp add: authorize_def resolve_origin_def example_web_simps)

text \<open>
  Claim C6, amended. For every request in which no token is found (no
  \<^verbatim>\<open>Authorization\<close> header, no \<^verbatim>\<open>authorization\<close> query parameter in use, no cookie of
  the configured name): if anonymous access is disabled, \<^verbatim>\<open>authorize\<close> fails with a
  401 response carrying \<open>WWW-Authenticate: Bearer realm="mercure"\<close>; if anonymous access
  is enabled, it succeeds with the anonymous result when the resolved origin is empty,
  allowed, or \<open>*\<close> is allowed, and fails with 403 when the resolved origin is not
  empty and not allowed.
\<close>

theorem no_token_outcome:
  "\<not> truthy (Headers_get (request_headers request) ''authorization'') \<Longrightarrow>
   \<not> (queryParamAuthorization config \<and>
      truthy (URL_searchParam W (request_url request) ''authorization'')) \<Longrightarrow>
   \<not> truthy (getCookies W (request_headers request) (cookieName config)) \<Longrightarrow>
   (\<not> anonymousAccess config \<longrightarrow>
      authorize W request config keyResolver =
        Inl (HttpError 401 ''Unauthorized''
               [(''WWW-Authenticate'', ''Bearer realm='' @ [CHR 0x22] @ ''mercure'' @ [CHR 0x22])])) \<and>
   (anonymousAccess config \<longrightarrow>
      (\<forall>origin. resolve_origin W request = Inr origin \<and>
                (\<not> truthy origin \<or> the origin \<in> set (allowedOrigins config) \<or>
                 ''*'' \<in> set (allowedOrigins config)) \<longrightarrow>
          authorize W request config keyResolver = Inr None) \<and>
      (\<forall>origin. resolve_origin W request = Inr origin \<and> truthy origin \<and>
                the origin \<notin> set (allowedOrigins config) \<and>
                ''*'' \<notin> set (allowedOrigins config) \<longrightarrow>
          authorize W request config keyResolver = Inl (HttpError 403 ''Forbidden'' [])))"
  by (auto simp: authorize_def Let_def)

theorem no_token_outcome_witness:
  "authorize example_web (example_request []) example_config example_keyResolver = Inr None \<and>
   authorize example_web (example_request [(''origin'', ''https://good.example'')])
     example_config example_keyResolver = Inr None \<and>
   authorize example_web (example_request [])
     (example_config\<lparr>anonymousAccess := False\<rparr>) example_keyResolver =
     Inl (HttpError 401 ''Unauthorized''
            [(''WWW-Authenticate'', ''Bearer realm='' @ [CHR 0x22] @ ''mercure'' @ [CHR 0x22])])"
proof -
  have none: "resolve_origin example_web (example_request []) = Inr None"
    by (simp add: resolve_origin_def example_web_simps)
  have good: "resolve_origin example_web (example_request [(''origin'', ''https://good.example'')]) =
      Inr (Some ''https://good.example'')"
    by (simp add: resolve_origin_def example_web_simps)
  have a: "authorize example_web (example_request []) example_config example_keyResolver = Inr None"
    using no_token_outcome [of "example_request []" example_config example_web example_keyResolver] none
    by (simp add: example_web_simps)
  have b: "authorize example_web (example_request [(''origin'', ''https://good.example'')])
      example_config example_keyResolver = Inr None"
    using no_token_outcome [of "example_request [(''origin'', ''https://good.example'')]"
        example_config example_web example_keyResolver] good
    by (simp add: example_web_simps)
  have c: "authorize example_web (example_request [])
      (example_config\<lparr>anonymousAccess := False\<rparr>) example_keyResolver =
      Inl (HttpError 401 ''Unauthorized''
             [(''WWW-Authenticate'', ''Bearer realm='' @ [CHR 0x22] @ ''mercure'' @ [CHR 0x22])])"
    using no_token_outcome [of "example_request []" "example_config\<lparr>anonymousAccess := False\<rparr>"
        example_web example_keyResolver]
    by (simp add: example_web_simps)
  from a b c show ?thesis by simp
qed

section \<open>Properties of the request handler\<close>

lemma filter_Headers_set_first_same:
  "filter (\<lambda>kv. fst kv = k) (Headers_set_first k v h) =
     (if list_ex (\<lambda>kv. fst kv = k) h then [(k, v)] else [])"
  by (induction h) (auto simp: filter_empty_conv)

lemma filter_Headers_set_first_other:
  "k' \<noteq> k \<Longrightarrow>
   filter (\<lambda>kv. fst kv = k') (Headers_set_first k v h) = filter (\<lambda>kv. fst kv = k') h"
proof (induction h)
  case Nil
  then show ?case by simp
next
  case (Cons kv h)
  have "filter (\<lambda>kv. fst kv = k') (filter (\<lambda>kv'. fst kv' \<noteq> k) h) = filter (\<lambda>kv. fst kv = k') h"
    using Cons.prems by (induction h) auto
  with Cons show ?case by auto
qed

lemma Headers_get_set:
  "Headers_get (Headers_set h name v) name' =
     (if toLowerCase name' = toLowerCase name then Some v else Headers_get h name')"
proof (cases "list_ex (\<lambda>kv. fst kv = toLowerCase name) h")
  case True
  then have "Headers_set h name v = Headers_set_first (toLowerCase name) v h"
    by (simp add: Headers_set_def)
  with True show ?thesis
    by (simp add: Headers_get_def filter_Headers_set_first_same filter_Headers_set_first_other)
next
  case False
  then have absent: "filter (\<lambda>kv. fst kv = toLowerCase name) h = []"
    by (simp add: list_ex_iff filter_empty_conv)
  from False have "Headers_set h name v = h @ [(toLowerCase name, v)]"
    by (simp add: Headers_set_def)
  with absent show ?thesis
    by (simp add: Headers_get_def)
qed

lemma generic_header_names:
  "toLowerCase ''server'' = ''server''"
  "toLowerCase ''x-content-type-options'' = ''x-content-type-options''"
  "toLowerCase ''x-frame-options'' = ''x-frame-options''"
  "toLowerCase ''x-xss-protection'' = ''x-xss-protection''"
  "toLowerCase ''referrer-policy'' = ''referrer-policy''"
  by (simp_all add: toLowerCase_def lower_char_def)

lemma withGenericHeaders_security: "security_headers (withGenericHeaders r)"
  by (simp add: security_headers_def withGenericHeaders_def Headers_get_set generic_header_names)

lemma withGenericHeaders_status: "response_status (withGenericHeaders r) = response_status r"
  by (simp add: withGenericHeaders_def)

lemma handleError_HttpError:
  "200 \<le> st \<Longrightarrow> st \<le> 599 \<Longrightarrow> st \<noteq> 204 \<Longrightarrow> st \<noteq> 205 \<Longrightarrow> st \<noteq> 304 \<Longrightarrow>
   \<exists>r. handleError accept (HttpError st msg hs) = Inr r \<and> response_status r = st"
  by (simp add: handleError_def Response_new_def Let_def)

lemma handleError_other:
  "\<forall>st msg hs. e \<noteq> HttpError st msg hs \<Longrightarrow>
   \<exists>r. handleError accept e = Inr r \<and> response_status r \<in> {400, 500}"
  by (cases e) (simp_all add: handleError_def Response_new_def Let_def)

lemma Router_match_no_route:
  "\<forall>route \<in> set routes. exec (fst route) (request_url request) = None \<Longrightarrow>
   Router_match exec routes request = ((\<lambda>ctx. Inl (HttpError 404 ''Not Found'' [])), [])"
  by (induction routes) auto

text \<open>
  Claim C9. Every response that the request handler produces carries the security
  headers \<open>server\<close>, \<open>x-content-type-options: nosniff\<close>, \<open>x-frame-options: DENY\<close>,
  \<open>x-xss-protection: 1; mode=block\<close> and \<open>referrer-policy: same-origin\<close>. In
  particular, when the routed handler throws an \<^verbatim>\<open>HttpError\<close> with status 400, 401,
  403, 404, 405, 415 or 500, a response with that status and these headers is
  produced; any other thrown error gives a 400 or 500 response with these headers; and
  a request that no route matches gives a 404 response with these headers.
\<close>

theorem every_response_has_security_headers:
  "(\<forall>r. respond exec accepted routes config request = Inr r \<longrightarrow> security_headers r) \<and>
   (\<forall>st msg hs.
      fst (Router_match exec routes request)
        \<lparr>context_parameters = snd (Router_match exec routes request), context_request = request,
         context_config = config\<rparr> = Inl (HttpError st msg hs) \<and>
      st \<in> {400, 401, 403, 404, 405, 415, 500} \<longrightarrow>
      (\<exists>r. respond exec accepted routes config request = Inr r \<and>
           response_status r = st \<and> security_headers r)) \<and>
   (\<forall>e.
      fst (Router_match exec routes request)
        \<lparr>context_parameters = snd (Router_match exec routes request), context_request = request,
         context_config = config\<rparr> = Inl e \<and>
      (\<forall>st msg hs. e \<noteq> HttpError st msg hs) \<longrightarrow>
      (\<exists>r. respond exec accepted routes config request = Inr r \<and>
           response_status r \<in> {400, 500} \<and> security_headers r)) \<and>
   ((\<forall>route \<in> set routes. exec (fst route) (request_url request) = None) \<longrightarrow>
      (\<exists>r. respond exec accepted routes config request = Inr r \<and>
           response_status r = 404 \<and> security_headers r))"
proof -
  obtain handler parameters where m: "Router_match exec routes request = (handler, parameters)"
    by (cases "Router_match exec routes request")
  let ?ctx = "\<lparr>context_parameters = parameters, context_request = request, context_config = config\<rparr>"
  have all: "security_headers r" if "respond exec accepted routes config request = Inr r" for r
    using that by (auto simp: respond_def m withGenericHeaders_security split: sum.splits)
  have http: "\<exists>r. respond exec accepted routes config request = Inr r \<and>
      response_status r = st \<and> security_headers r"
    if "handler ?ctx = Inl (HttpError st msg hs)" "st \<in> {400, 401, 403, 404, 405, 415, 500}"
    for st msg hs
  proof -
    from that(2) have "200 \<le> st" "st \<le> 599" "st \<noteq> 204" "st \<noteq> 205" "st \<noteq> 304" by auto
    from handleError_HttpError [OF this, of "accepted request" msg hs]
    obtain r where "handleError (accepted request) (HttpError st msg hs) = Inr r" "response_status r = st"
      by blast
    with that(1) show ?thesis
      by (simp add: respond_def m withGenericHeaders_security withGenericHeaders_status)
  qed
  have other: "\<exists>r. respond exec accepted routes config request = Inr r \<and>
      response_status r \<in> {400, 500} \<and> security_headers r"
    if "handler ?ctx = Inl e" "\<forall>st msg hs. e \<noteq> HttpError st msg hs" for e
  proof -
    from handleError_other [OF that(2), of "accepted request"]
    obtain r where "handleError (accepted request) e = Inr r" "response_status r \<in> {400, 500}"
      by blast
    with that(1) show ?thesis
      by (simp add: respond_def m withGenericHeaders_security withGenericHeaders_status)
  qed
  have unrouted: "\<exists>r. respond exec accepted routes config request = Inr r \<and>
      response_status r = 404 \<and> security_headers r"
    if "\<forall>route \<in> set routes. exec (fst route) (request_url request) = None"
  proof -
    from that Router_match_no_route [of routes exec request] m
    have "handler ?ctx = Inl (HttpError 404 ''Not Found'' [])" by auto
    from http [OF this] show ?thesis by simp
  qed
  from all http other unrouted show ?thesis by (simp add: m)
qed

lemma example_route_matches:
  "example_exec ''/.well-known/mercure'' ''https://hub.example/.well-known/mercure?topic=*'' = Some []"
  by (simp add: example_exec_def)

lemma example_verbs:
  "toLowerCase ''GET'' = ''get''"
  "toLowerCase ''POST'' = ''post''"
  "toLowerCase ''DELETE'' = ''delete''"
  "toUpperCase ''get'' = ''GET''"
  "toUpperCase ''post'' = ''POST''"
  by code_simp+

theorem every_response_has_security_headers_witness:
  "(\<exists>r. respond example_exec example_accepted example_routes example_config (example_request []) = Inr r \<and>
        response_status r = 200 \<and> security_headers r) \<and>
   (\<exists>r. respond example_exec example_accepted example_routes example_config
          ((example_request [])\<lparr>request_method := ''POST''\<rparr>) = Inr r \<and>
        response_status r = 415 \<and> security_headers r) \<and>
   (\<exists>r. respond example_exec example_accepted example_routes example_config
          ((example_request [])\<lparr>request_method := ''DELETE''\<rparr>) = Inr r \<and>
        response_status r = 405 \<and> security_headers r) \<and>
   (\<exists>r. respond example_exec example_accepted [] example_config (example_request []) = Inr r \<and>
        response_status r = 404 \<and> security_headers r)"
proof -
  let ?post = "(example_request [])\<lparr>request_method := ''POST''\<rparr>"
  let ?delete = "(example_request [])\<lparr>request_method := ''DELETE''\<rparr>"
  have get: "\<exists>r. respond example_exec example_accepted example_routes example_config
      (example_request []) = Inr r \<and> response_status r = 200"
    by (simp add: respond_def example_routes_def example_request_def example_route_matches
        example_verbs withGenericHeaders_def)
  have post: "fst (Router_match example_exec example_routes ?post)
      \<lparr>context_parameters = snd (Router_match example_exec example_routes ?post),
       context_request = ?post, context_config = example_config\<rparr> =
      Inl (HttpError 415 ''Unsupported Media Type'' [(''accept'', ''application/x-www-form-urlencoded'')])"
    by (simp add: example_routes_def example_request_def example_route_matches example_verbs)
  have delete: "fst (Router_match example_exec example_routes ?delete)
      \<lparr>context_parameters = snd (Router_match example_exec example_routes ?delete),
       context_request = ?delete, context_config = example_config\<rparr> =
      Inl (HttpError 405 ''Method not allowed'' [(''allow'', ''GET, POST'')])"
    by (simp add: example_routes_def example_request_def example_route_matches example_verbs)
  note main = every_response_has_security_headers
  from get main [of example_exec example_accepted example_routes example_config "example_request []"]
  have a: "\<exists>r. respond example_exec example_accepted example_routes example_config
      (example_request []) = Inr r \<and> response_status r = 200 \<and> security_headers r"
    by blast
  from post main [of example_exec example_accepted example_routes example_config ?post]
  have b: "\<exists>r. respond example_exec example_accepted example_routes example_config ?post = Inr r \<and>
      response_status r = 415 \<and> security_headers r"
    by blast
  from delete main [of example_exec example_accepted example_routes example_config ?delete]
  have c: "\<exists>r. respond example_exec example_accepted example_routes example_config ?delete = Inr r \<and>
      response_status r = 405 \<and> security_headers r"
    by blast
  from main [of example_exec example_accepted "[]" example_config "example_request []"]
  have d: "\<exists>r. respond example_exec example_accepted [] example_config (example_request []) = Inr r \<and>
      response_status r = 404 \<and> security_headers r"
    by simp
  from a b c d show ?thesis by blast
qed

end
